theory Spec2Isabelle
  imports Complex_Main "HOL-Library.Multiset"
begin

section \<open>Python values, errors and results\<close>

text \<open>
  Exceptions are values. \<open>py_error + 'a\<close> is the result of a call that may raise:
  \<open>Inl e\<close> is the exception \<open>e\<close> leaving the call, \<open>Inr v\<close> the returned value.
\<close>

datatype py_error =
    IndexError | KeyError | ValueError | TypeError | AttributeError
  | UnboundLocalError | RuntimeError | NotImplementedError | ZeroDivisionError
  | FileNotFoundError | KeyboardInterrupt | SystemExit

text \<open>
  A Python float: a number, one of the two infinities, or the value that is not a
  number, for which every comparison is false.
\<close>

datatype pyfloat = PyFloat real | PyInf | PyNegInf | PyNaN

text \<open>
  The cells of a data frame and the values of an observation dictionary. A numpy float
  array of numbers is a \<open>FloatList\<close>, a list of indices an \<open>IntList\<close>, a Python list of
  floats a \<open>PyFloats\<close>; \<open>NaN\<close> is what pandas stores for a missing entry.
\<close>

datatype pyval =
    PyNone | NaN | PyInt int | PyStr string
  | IntList "int list" | FloatList "real list" | PyFloats "pyfloat list"

type_synonym observation = "string \<rightharpoonup> pyval"

section \<open>Project configuration and task state\<close>

record project_config =
  user_column :: string
  item_column :: string
  other_input_columns :: "string list"
  output_column :: string
  auxiliar_output_columns :: "string list"
  hist_view_column_name :: string
  hist_output_column_name :: string
  available_arms_column_name :: "string option"

text \<open>Truth value of an optional string: \<open>None\<close> and the empty string are false.\<close>

fun truthy_name :: "string option \<Rightarrow> bool" where
  "truthy_name None = False"
| "truthy_name (Some n) = (n \<noteq> [])"

text \<open>
  The random generator is a stream of raw draws and the position of the next one.
  \<open>randbelow n\<close> is \<open>Random._randbelow(n)\<close>: a value in \<open>[0, n)\<close>.
\<close>

type_synonym rng = "(nat \<Rightarrow> nat) \<times> nat"

fun randbelow :: "nat \<Rightarrow> rng \<Rightarrow> nat \<times> rng" where
  "randbelow n (f, k) = (f k mod n, (f, Suc k))"

text \<open>
  The part of the task that \<open>_get_arm_indices\<close> reads and writes: the generator, the
  cached \<open>_unique_items\<close> array, and the item columns of the train and validation frames
  (what \<open>get_data_frame_for_indexing()[item_column]\<close> concatenates); and the task's
  parameter \<open>batch_size\<close>, which \<open>_get_arm_scores\<close> reads.
\<close>

record task_state =
  rng_state :: rng
  cached_unique_items :: "int list option"
  train_items :: "int list"
  val_items :: "int list"
  batch_size :: nat

section \<open>Shuffling and candidate arms\<close>

text \<open>
  \<open>random.shuffle(x)\<close>:
  \<^verbatim>\<open>for i in reversed(range(1, len(x))): j = randbelow(i + 1); x[i], x[j] = x[j], x[i]\<close>
\<close>

fun shuffle_from :: "nat \<Rightarrow> 'a list \<Rightarrow> rng \<Rightarrow> 'a list \<times> rng" where
  "shuffle_from 0 x g = (x, g)"
| "shuffle_from (Suc i) x g =
     (case randbelow (Suc i + 1) g of
        (j, g') \<Rightarrow> shuffle_from i (x[Suc i := x ! j, j := x ! Suc i]) g')"

definition shuffle :: "'a list \<Rightarrow> rng \<Rightarrow> 'a list \<times> rng" where
  "shuffle x g = shuffle_from (length x - 1) x g"

text \<open>\<open>Series.unique()\<close>: the distinct values in order of first appearance.\<close>

fun pd_unique :: "'a list \<Rightarrow> 'a list" where
  "pd_unique [] = []"
| "pd_unique (x # xs) = x # pd_unique (filter (\<lambda>y. y \<noteq> x) xs)"

text \<open>The positions of the non-zero entries of a one-dimensional array.\<close>

definition nonzero_positions :: "'a::zero list \<Rightarrow> int list" where
  "nonzero_positions v = map int (filter (\<lambda>i. v ! i \<noteq> 0) [0..<length v])"

text \<open>
  \<open>np.flatnonzero(a)\<close> is \<open>np.nonzero(np.ravel(a))[0]\<close>: for an array the positions
  of its non-zero entries (a float that is not a number is not zero); a scalar is an
  array of one entry, which counts as non-zero when it is true in Python (\<open>None\<close>, 0
  and the empty string are not).
\<close>

fun flatnonzero :: "pyval \<Rightarrow> int list" where
  "flatnonzero (FloatList v) = nonzero_positions v"
| "flatnonzero (IntList v) = nonzero_positions v"
| "flatnonzero (PyFloats v) = map int (filter (\<lambda>i. v ! i \<noteq> PyFloat 0) [0..<length v])"
| "flatnonzero PyNone = []"
| "flatnonzero NaN = [0]"
| "flatnonzero (PyInt n) = (if n \<noteq> 0 then [0] else [])"
| "flatnonzero (PyStr s) = (if s \<noteq> [] then [0] else [])"

text \<open>The \<open>unique_items\<close> property: computed on first use, cached afterwards.\<close>

definition unique_items :: "task_state \<Rightarrow> int list \<times> task_state" where
  "unique_items s =
     (case cached_unique_items s of
        Some u \<Rightarrow> (u, s)
      | None \<Rightarrow>
          (let u = pd_unique (train_items s @ val_items s)
           in (u, s\<lparr>cached_unique_items := Some u\<rparr>)))"

text \<open>
  The array \<open>_get_arm_indices\<close> returns is either its own (the result of
  \<open>np.flatnonzero\<close>) or the slice \<open>unique_items[:100]\<close>, a view of the cached array:
  shuffling the view permutes the first 100 cached entries in place, and a view
  returned earlier shows every later shuffle.
\<close>

datatype arm_indices = Owned "int list" | UniqueItemsView

fun read_arm_indices :: "task_state \<Rightarrow> arm_indices \<Rightarrow> int list" where
  "read_arm_indices s (Owned xs) = xs"
| "read_arm_indices s UniqueItemsView =
     (case cached_unique_items s of Some u \<Rightarrow> take 100 u | None \<Rightarrow> [])"

definition get_arm_indices ::
  "project_config \<Rightarrow> observation \<Rightarrow> task_state \<Rightarrow> (py_error + arm_indices) \<times> task_state" where
  "get_arm_indices cfg ob s =
     (if truthy_name (available_arms_column_name cfg) then
        (case ob (the (available_arms_column_name cfg)) of
           None \<Rightarrow> (Inl KeyError, s)
         | Some v \<Rightarrow>
             (case shuffle (flatnonzero v) (rng_state s) of
                (shuffled, g) \<Rightarrow> (Inr (Owned shuffled), s\<lparr>rng_state := g\<rparr>)))
      else
        (case unique_items s of
           (u, s1) \<Rightarrow>
             (case shuffle (take 100 u) (rng_state s1) of
                (shuffled, g) \<Rightarrow>
                  (Inr UniqueItemsView,
                   s1\<lparr>rng_state := g, cached_unique_items := Some (shuffled @ drop 100 u)\<rparr>))))"

section \<open>Data frames\<close>

text \<open>
  A pandas data frame: the column names in order, and the rows in order, each row
  holding one cell per column. A column is found by its first position in the list of
  names.
\<close>

record data_frame =
  df_columns :: "string list"
  df_rows :: "pyval list list"

fun index_of :: "'a \<Rightarrow> 'a list \<Rightarrow> nat" where
  "index_of c [] = 0"
| "index_of c (x # xs) = (if x = c then 0 else Suc (index_of c xs))"

definition cell :: "data_frame \<Rightarrow> nat \<Rightarrow> string \<Rightarrow> pyval" where
  "cell df i c = (df_rows df ! i) ! index_of c (df_columns df)"

definition len_df :: "data_frame \<Rightarrow> nat" where
  "len_df df = length (df_rows df)"

text \<open>
  \<open>pd.DataFrame(columns=cols, data=records)\<close> for a list of dictionaries: one row per
  dictionary, restricted to \<open>cols\<close>; a key a dictionary lacks gives \<open>NaN\<close>.
\<close>

definition DataFrame :: "string list \<Rightarrow> observation list \<Rightarrow> data_frame" where
  "DataFrame cols data =
     \<lparr>df_columns = cols,
      df_rows = map (\<lambda>d. map (\<lambda>c. case d c of None \<Rightarrow> NaN | Some v \<Rightarrow> v) cols) data\<rparr>"

text \<open>\<open>df.to_dict("records")\<close>: one dictionary per row, keyed by column name.\<close>

definition to_dict_records :: "data_frame \<Rightarrow> observation list" where
  "to_dict_records df = map (\<lambda>r. map_of (zip (df_columns df) r)) (df_rows df)"

text \<open>\<open>df[c] = v\<close> for a scalar \<open>v\<close>: the column is overwritten, or appended when new.\<close>

definition assign_scalar :: "data_frame \<Rightarrow> string \<Rightarrow> pyval \<Rightarrow> data_frame" where
  "assign_scalar df c v =
     (if c \<in> set (df_columns df)
      then df\<lparr>df_rows := map (\<lambda>r. r[index_of c (df_columns df) := v]) (df_rows df)\<rparr>
      else \<lparr>df_columns = df_columns df @ [c], df_rows = map (\<lambda>r. r @ [v]) (df_rows df)\<rparr>)"

text \<open>
  \<open>df[c] = values\<close> for a list: one cell per row, in row order; pandas raises
  \<open>ValueError\<close> when the list's length is not the number of rows.
\<close>

definition assign_list :: "data_frame \<Rightarrow> string \<Rightarrow> pyval list \<Rightarrow> py_error + data_frame" where
  "assign_list df c vs =
     (if length vs \<noteq> length (df_rows df) then Inl ValueError
      else if c \<in> set (df_columns df)
      then Inr (df\<lparr>df_rows :=
                  map (\<lambda>(r, v). r[index_of c (df_columns df) := v]) (zip (df_rows df) vs)\<rparr>)
      else Inr \<lparr>df_columns = df_columns df @ [c],
                df_rows = map (\<lambda>(r, v). r @ [v]) (zip (df_rows df) vs)\<rparr>)"

text \<open>
  \<open>pd.concat(frames)\<close>: \<open>ValueError\<close> on an empty list; otherwise the rows of the
  frames one after the other, over the union of their columns in order of first
  appearance, with \<open>NaN\<close> where a frame lacks a column.
\<close>

definition reindex_row :: "string list \<Rightarrow> string list \<Rightarrow> pyval list \<Rightarrow> pyval list" where
  "reindex_row cols own r =
     map (\<lambda>c. if c \<in> set own then r ! index_of c own else NaN) cols"

definition pd_concat :: "data_frame list \<Rightarrow> py_error + data_frame" where
  "pd_concat dfs =
     (case dfs of
        [] \<Rightarrow> Inl ValueError
      | _ # _ \<Rightarrow>
          (let cols = pd_unique (concat (map df_columns dfs))
           in Inr \<lparr>df_columns = cols,
                   df_rows = concat (map (\<lambda>df. map (reindex_row cols (df_columns df))
                                                   (df_rows df)) dfs)\<rparr>))"

text \<open>\<open>xs[i:j]\<close> for \<open>0 \<le> i \<le> j\<close>: out of range the slice is cut short, never an error.\<close>

definition slice :: "'a list \<Rightarrow> nat \<Rightarrow> nat \<Rightarrow> 'a list" where
  "slice xs i j = take (j - i) (drop i xs)"

section \<open>One data frame per observation\<close>

definition obs_columns :: "project_config \<Rightarrow> string list" where
  "obs_columns cfg = [user_column cfg] @ other_input_columns cfg"

definition fill_hist_columns :: "project_config \<Rightarrow> data_frame \<Rightarrow> data_frame" where
  "fill_hist_columns cfg ob_df =
     (let ob_df1 = (if hist_view_column_name cfg \<notin> set (df_columns ob_df)
                    then assign_scalar ob_df (hist_view_column_name cfg) (PyInt 0)
                    else ob_df)
      in if hist_output_column_name cfg \<notin> set (df_columns ob_df1)
         then assign_scalar ob_df1 (hist_output_column_name cfg) (PyInt 0)
         else ob_df1)"

definition fill_auxiliar_column :: "string \<Rightarrow> data_frame \<Rightarrow> data_frame" where
  "fill_auxiliar_column name ob_df =
     (if name \<notin> set (df_columns ob_df) then assign_scalar ob_df name (PyInt 0) else ob_df)"

definition create_ob_data_frame ::
  "project_config \<Rightarrow> observation \<Rightarrow> int list \<Rightarrow> data_frame" where
  "create_ob_data_frame cfg ob arm_indices =
     (let data = map (\<lambda>arm_index. ob(item_column cfg \<mapsto> PyInt arm_index)) arm_indices;
          ob_df = DataFrame (obs_columns cfg @ [item_column cfg]) data;
          ob_df = fill_hist_columns cfg ob_df;
          ob_df = (if output_column cfg \<notin> set (df_columns ob_df)
                   then assign_scalar ob_df (output_column cfg) (PyInt 1)
                   else ob_df)
      in fold fill_auxiliar_column (auxiliar_output_columns cfg) ob_df)"

section \<open>Preparing observations for the agent\<close>

text \<open>
  The reward model of a bandit is a network. Its forward pass takes the contexts of one
  batch of rows and returns a tensor, here the list of its rows, each row the list of
  its floats, or a tuple of tensors.
\<close>

datatype 'c reward_module =
    TensorModule "'c list \<Rightarrow> pyfloat list list"
  | TupleModule "'c list \<Rightarrow> pyfloat list list list"

text \<open>
  The agent: the bandit's reward model when it has one, the bandit's
  \<open>calculate_scores\<close>, and the agent's \<open>rank\<close>. A score is a Python float.
\<close>

record 'c bandit_agent =
  reward_model :: "'c reward_module option"
  calculate_scores :: "int list \<Rightarrow> 'c list \<Rightarrow> pyfloat list"
  agent_rank :: "int list \<Rightarrow> 'c list \<Rightarrow> pyfloat list \<Rightarrow> int list \<times> pyfloat list"

text \<open>
  Modelled from the spec: the key \<open>ITEM_METADATA_KEY\<close> is imported from
  \<open>mars_gym.gym.envs.recsys\<close>, which is not among the sources; it is a fixed string.
\<close>

definition ITEM_METADATA_KEY :: string where
  "ITEM_METADATA_KEY = ''item_metadata''"

text \<open>
  Modelled from the spec: the class \<open>InteractionsDataset\<close> of \<open>mars_gym.data.dataset\<close> is
  not among the sources. The spec has it build the per-arm feature contexts: the dataset
  holds one context per row of its frame, in row order, computed from the item metadata,
  the column names and the row by \<open>featurize\<close>; indexing it with a slice gives the
  contexts of those rows.
\<close>

definition InteractionsDataset ::
  "(pyval \<Rightarrow> string list \<Rightarrow> pyval list \<Rightarrow> 'c) \<Rightarrow> data_frame \<Rightarrow> pyval \<Rightarrow> 'c list" where
  "InteractionsDataset featurize df metadata =
     map (featurize metadata (df_columns df)) (df_rows df)"

text \<open>
  Modelled from the spec: the class \<open>FasterBatchSampler\<close> of \<open>mars_gym.torch.data\<close> is not
  among the sources. The spec has the pipeline handle batching: without shuffling, the
  sampler gives the rows of the dataset in order, \<open>batch_size\<close> at a time, the last batch
  holding what is left. The number of batches is the length of the dataset divided by
  the batch size, rounded up, so that a batch size of 0 is a \<open>ZeroDivisionError\<close>.
\<close>

function batches :: "nat \<Rightarrow> 'a list \<Rightarrow> 'a list list" where
  "batches n xs = (if n = 0 \<or> xs = [] then [] else take n xs # batches n (drop n xs))"
  by pat_completeness auto
termination
  by (relation "measure (\<lambda>(n, xs). length xs)") auto

declare batches.simps [simp del]

definition FasterBatchSampler :: "'a list \<Rightarrow> nat \<Rightarrow> py_error + 'a list list" where
  "FasterBatchSampler data_source n =
     (if n = 0 then Inl ZeroDivisionError else Inr (batches n data_source))"

text \<open>
  \<open>torch.cat(tensors, 0)\<close>: the rows of the tensors one after the other; rows of
  different widths are a \<open>RuntimeError\<close>.
\<close>

definition torch_cat_rows :: "pyfloat list list list \<Rightarrow> py_error + pyfloat list list" where
  "torch_cat_rows tensors =
     (case concat tensors of
        [] \<Rightarrow> Inr []
      | row # rows \<Rightarrow>
          if list_all (\<lambda>r. length r = length row) rows then Inr (row # rows)
          else Inl RuntimeError)"

text \<open>
  \<open>Trial(model).with_test_generator(generator).predict()\<close> of the torchbearer library:
  the forward pass runs on every batch of the generator, in order, and the outputs are
  collected in a list. When the first output is a tensor the result is the outputs
  concatenated along the rows; otherwise, and when there was no batch at all, it is the
  list of the outputs.
\<close>

datatype model_output =
    OutputTensor "pyfloat list list"
  | OutputList "pyfloat list list list list"

definition trial_predict :: "'c reward_module \<Rightarrow> 'c list list \<Rightarrow> py_error + model_output" where
  "trial_predict model generator =
     (case model of
        TensorModule forward \<Rightarrow>
          (if generator = [] then Inr (OutputList [])
           else (case torch_cat_rows (map forward generator) of
                   Inl e \<Rightarrow> Inl e
                 | Inr predictions \<Rightarrow> Inr (OutputTensor predictions)))
      | TupleModule forward \<Rightarrow> Inr (OutputList (map forward generator)))"

text \<open>
  \<open>_get_arm_scores\<close>. The scores are the output of \<open>predict\<close> when it is a tensor and
  \<open>model_output[0][0]\<close> otherwise, an \<open>IndexError\<close> when that list, or its first element,
  is empty; \<open>reshape(-1).tolist()\<close> puts the rows of the tensor one after the other.
\<close>

definition get_arm_scores :: "nat \<Rightarrow> 'c reward_module \<Rightarrow> 'c list \<Rightarrow> py_error + pyfloat list" where
  "get_arm_scores n model ob_dataset =
     (case FasterBatchSampler ob_dataset n of
        Inl e \<Rightarrow> Inl e
      | Inr generator \<Rightarrow>
          (case trial_predict model generator of
             Inl e \<Rightarrow> Inl e
           | Inr (OutputTensor scores_tensor) \<Rightarrow> Inr (concat scores_tensor)
           | Inr (OutputList outputs) \<Rightarrow>
               (case outputs of
                  [] \<Rightarrow> Inl IndexError
                | first_output # _ \<Rightarrow>
                    (case first_output of
                       [] \<Rightarrow> Inl IndexError
                     | scores_tensor # _ \<Rightarrow> Inr (concat scores_tensor)))))"

text \<open>The comprehension \<open>[self._get_arm_indices(ob) for ob in obs]\<close>.\<close>

fun get_arm_indices_list ::
  "project_config \<Rightarrow> observation list \<Rightarrow> task_state
     \<Rightarrow> (py_error + arm_indices list) \<times> task_state" where
  "get_arm_indices_list cfg [] s = (Inr [], s)"
| "get_arm_indices_list cfg (ob # obs) s =
     (case get_arm_indices cfg ob s of
        (Inl e, s1) \<Rightarrow> (Inl e, s1)
      | (Inr a, s1) \<Rightarrow>
          (case get_arm_indices_list cfg obs s1 of
             (Inl e, s2) \<Rightarrow> (Inl e, s2)
           | (Inr as, s2) \<Rightarrow> (Inr (a # as), s2)))"

text \<open>
  The loop \<^verbatim>\<open>i = 0; for ob_df in ob_dfs: out.append(xs[i : i + len(ob_df)]); i += len(ob_df)\<close>.
\<close>

fun slice_per_frame :: "'a list \<Rightarrow> nat \<Rightarrow> data_frame list \<Rightarrow> 'a list list" where
  "slice_per_frame xs i [] = []"
| "slice_per_frame xs i (ob_df # ob_dfs) =
     slice xs i (i + len_df ob_df) # slice_per_frame xs (i + len_df ob_df) ob_dfs"

text \<open>
  \<open>_prepare_for_agent\<close>. An exception of \<open>_get_arm_scores\<close> leaves the call.
\<close>

definition prepare_for_agent ::
  "(pyval \<Rightarrow> string list \<Rightarrow> pyval list \<Rightarrow> 'c) \<Rightarrow> project_config \<Rightarrow> 'c bandit_agent
     \<Rightarrow> observation list \<Rightarrow> task_state
     \<Rightarrow> (py_error + ('c list list \<times> int list list \<times> pyfloat list list)) \<times> task_state" where
  "prepare_for_agent featurize cfg agent obs s =
     (case get_arm_indices_list cfg obs s of
        (Inl e, s1) \<Rightarrow> (Inl e, s1)
      | (Inr views, s1) \<Rightarrow>
          (let arm_indices_list = map (read_arm_indices s1) views;
               ob_dfs = map (\<lambda>(ob, arm_indices). create_ob_data_frame cfg ob arm_indices)
                            (zip obs arm_indices_list)
           in case pd_concat ob_dfs of
                Inl e \<Rightarrow> (Inl e, s1)
              | Inr all_df \<Rightarrow>
                  (case obs of
                     [] \<Rightarrow> (Inl IndexError, s1)
                   | ob0 # _ \<Rightarrow>
                       (case ob0 ITEM_METADATA_KEY of
                          None \<Rightarrow> (Inl KeyError, s1)
                        | Some metadata \<Rightarrow>
                            (let obs_dataset = InteractionsDataset featurize all_df metadata;
                                 arm_contexts_list = slice_per_frame obs_dataset 0 ob_dfs
                             in case (case reward_model agent of
                                        Some model \<Rightarrow>
                                          (case get_arm_scores (batch_size s1) model obs_dataset of
                                             Inl e \<Rightarrow> Inl e
                                           | Inr all_arm_scores \<Rightarrow>
                                               Inr (slice_per_frame all_arm_scores 0 ob_dfs))
                                      | None \<Rightarrow>
                                          Inr (map (\<lambda>(arm_indices, arm_contexts).
                                                      calculate_scores agent arm_indices
                                                        arm_contexts)
                                                   (zip arm_indices_list arm_contexts_list))) of
                                  Inl e \<Rightarrow> (Inl e, s1)
                                | Inr arm_scores_list \<Rightarrow>
                                    (Inr (arm_contexts_list, arm_indices_list, arm_scores_list),
                                     s1))))))"

section \<open>Saving the test set predictions\<close>

text \<open>\<open>np.max\<close> of a list of integers; \<open>ValueError\<close> on an empty one.\<close>

fun np_max :: "int list \<Rightarrow> py_error + int" where
  "np_max [] = Inl ValueError"
| "np_max (x # xs) = Inr (fold max xs x)"

text \<open>\<open>np.zeros(n)\<close>; a negative length is a \<open>ValueError\<close>.\<close>

definition np_zeros :: "int \<Rightarrow> py_error + real list" where
  "np_zeros n = (if n < 0 then Inl ValueError else Inr (replicate (nat n) 0))"

text \<open>
  \<open>items[indices] = 1\<close>: an index \<open>a\<close> of an array of length \<open>n\<close> must satisfy
  \<open>-n \<le> a < n\<close>, a negative one counting from the end; otherwise \<open>IndexError\<close>.
\<close>

fun set_ones :: "real list \<Rightarrow> int list \<Rightarrow> py_error + real list" where
  "set_ones items [] = Inr items"
| "set_ones items (a # as) =
     (let n = int (length items)
      in if - n \<le> a \<and> a < n
         then set_ones (items[nat (if a < 0 then a + n else a) := 1]) as
         else Inl IndexError)"

text \<open>\<open>len\<close> of a cell: defined for lists, arrays and strings.\<close>

fun py_len :: "pyval \<Rightarrow> py_error + nat" where
  "py_len (IntList xs) = Inr (length xs)"
| "py_len (FloatList xs) = Inr (length xs)"
| "py_len (PyFloats xs) = Inr (length xs)"
| "py_len (PyStr s) = Inr (length s)"
| "py_len _ = Inl TypeError"

text \<open>
  Lines 849 to 857: the available arms of an observation become an indicator vector.
  Arms that are not a list of integers, and a logged item that is not an integer, end
  in a \<open>TypeError\<close>.
\<close>

definition convert_available_arms :: "project_config \<Rightarrow> observation \<Rightarrow> py_error + observation" where
  "convert_available_arms cfg ob =
     (if truthy_name (available_arms_column_name cfg) then
        (case ob (the (available_arms_column_name cfg)) of
           None \<Rightarrow> Inl KeyError
         | Some v \<Rightarrow>
             (case py_len v of
                Inl e \<Rightarrow> Inl e
              | Inr n \<Rightarrow>
                  (case (if n = 0
                         then (case ob (item_column cfg) of
                                 None \<Rightarrow> Inl KeyError
                               | Some (PyInt item) \<Rightarrow> Inr [item]
                               | Some _ \<Rightarrow> Inl TypeError)
                         else (case v of IntList arms \<Rightarrow> Inr arms | _ \<Rightarrow> Inl TypeError)) of
                     Inl e \<Rightarrow> Inl e
                   | Inr available_arms \<Rightarrow>
                       (case np_max available_arms of
                          Inl e \<Rightarrow> Inl e
                        | Inr m \<Rightarrow>
                            (case np_zeros (m + 1) of
                               Inl e \<Rightarrow> Inl e
                             | Inr zeros \<Rightarrow>
                                 (case set_ones zeros available_arms of
                                    Inl e \<Rightarrow> Inl e
                                  | Inr items \<Rightarrow>
                                      Inr (ob(the (available_arms_column_name cfg)
                                                \<mapsto> FloatList items))))))))
      else Inr ob)"

definition set_item_metadata :: "pyval option \<Rightarrow> observation \<Rightarrow> observation" where
  "set_item_metadata embeddings_for_metadata ob =
     ob(ITEM_METADATA_KEY \<mapsto>
          (case embeddings_for_metadata of Some m \<Rightarrow> m | None \<Rightarrow> PyNone))"

text \<open>The first loop over the observations; the first exception ends it.\<close>

fun prepare_test_obs ::
  "project_config \<Rightarrow> pyval option \<Rightarrow> observation list \<Rightarrow> py_error + observation list" where
  "prepare_test_obs cfg emb [] = Inr []"
| "prepare_test_obs cfg emb (ob # obs) =
     (case convert_available_arms cfg (set_item_metadata emb ob) of
        Inl e \<Rightarrow> Inl e
      | Inr ob' \<Rightarrow>
          (case prepare_test_obs cfg emb obs of
             Inl e \<Rightarrow> Inl e
           | Inr obs' \<Rightarrow> Inr (ob' # obs')))"

text \<open>The comparisons \<open>a < b\<close> and \<open>a >= b\<close> of two floats.\<close>

fun py_lt :: "pyfloat \<Rightarrow> pyfloat \<Rightarrow> bool" where
  "py_lt (PyFloat a) (PyFloat b) = (a < b)"
| "py_lt (PyFloat a) PyInf = True"
| "py_lt PyNegInf (PyFloat b) = True"
| "py_lt PyNegInf PyInf = True"
| "py_lt _ _ = False"


text \<open>
  \<open>sorted(xs)\<close> is the sort of CPython lists (\<open>listobject.c\<close>, as in the versions 3.6
  to 3.11), which only ever asks whether one element is less than another. On a list
  of fewer than 64 elements it finds the run the list starts with (a run that descends
  strictly is reversed) and then inserts each further element into the sorted part at
  the place a binary search gives. Longer lists are sorted run by run and the runs
  merged; on floats that are all numbers the outcome is the same, the list in ascending
  order, so that \<open>py_sorted\<close> is \<open>sorted\<close> for every list of numbers and for every list
  of fewer than 64 floats.
\<close>

fun ascending_run :: "pyfloat \<Rightarrow> pyfloat list \<Rightarrow> pyfloat list \<times> pyfloat list" where
  "ascending_run prev [] = ([], [])"
| "ascending_run prev (x # xs) =
     (if py_lt x prev then ([], x # xs)
      else (case ascending_run x xs of (run, rest) \<Rightarrow> (x # run, rest)))"

fun descending_run :: "pyfloat \<Rightarrow> pyfloat list \<Rightarrow> pyfloat list \<times> pyfloat list" where
  "descending_run prev [] = ([], [])"
| "descending_run prev (x # xs) =
     (if py_lt x prev
      then (case descending_run x xs of (run, rest) \<Rightarrow> (x # run, rest))
      else ([], x # xs))"

text \<open>The run at the start of the list, in ascending order, and what follows it.\<close>

fun count_run :: "pyfloat list \<Rightarrow> pyfloat list \<times> pyfloat list" where
  "count_run [] = ([], [])"
| "count_run [x] = ([x], [])"
| "count_run (x # y # zs) =
     (if py_lt y x
      then (case descending_run y zs of (run, rest) \<Rightarrow> (rev (x # y # run), rest))
      else (case ascending_run y zs of (run, rest) \<Rightarrow> (x # y # run, rest)))"

text \<open>
  The binary search for the place of \<open>pivot\<close> among \<open>xs[l:r]\<close>:
  \<^verbatim>\<open>while l < r: p = l + ((r - l) >> 1); if pivot < xs[p]: r = p else: l = p + 1\<close>.
\<close>

function bisect :: "pyfloat \<Rightarrow> pyfloat list \<Rightarrow> nat \<Rightarrow> nat \<Rightarrow> nat" where
  "bisect pivot xs l r =
     (if l < r
      then (let p = l + (r - l) div 2
            in if py_lt pivot (xs ! p) then bisect pivot xs l p else bisect pivot xs (p + 1) r)
      else l)"
  by pat_completeness auto
termination
  by (relation "measure (\<lambda>(pivot, xs, l, r). r - l)") auto

declare bisect.simps [simp del]

definition insert_pivot :: "pyfloat \<Rightarrow> pyfloat list \<Rightarrow> pyfloat list" where
  "insert_pivot pivot xs =
     (let l = bisect pivot xs 0 (length xs) in take l xs @ pivot # drop l xs)"

fun binarysort :: "pyfloat list \<Rightarrow> pyfloat list \<Rightarrow> pyfloat list" where
  "binarysort sorted_part [] = sorted_part"
| "binarysort sorted_part (pivot # rest) = binarysort (insert_pivot pivot sorted_part) rest"

definition py_sorted :: "pyfloat list \<Rightarrow> pyfloat list" where
  "py_sorted xs = (case count_run xs of (run, rest) \<Rightarrow> binarysort run rest)"

text \<open>\<open>list(reversed(sorted(action_scores)))\<close>.\<close>

definition sorted_action_scores :: "pyfloat list \<Rightarrow> pyfloat list" where
  "sorted_action_scores action_scores = rev (py_sorted action_scores)"

text \<open>
  \<open>_save_test_set_predictions\<close>. The result is the frame written by \<open>to_csv\<close> with
  \<open>index=False\<close>: the columns and the rows of the test data frame after the three
  assignments. (\<open>self.clean()\<close> only drops cached datasets and the cached training
  frame.)
\<close>

definition save_test_set_predictions ::
  "(pyval \<Rightarrow> string list \<Rightarrow> pyval list \<Rightarrow> 'c) \<Rightarrow> project_config \<Rightarrow> pyval option
     \<Rightarrow> 'c bandit_agent \<Rightarrow> data_frame \<Rightarrow> task_state
     \<Rightarrow> (py_error + data_frame) \<times> task_state" where
  "save_test_set_predictions featurize cfg emb agent test_data_frame s =
     (case prepare_test_obs cfg emb (to_dict_records test_data_frame) of
        Inl e \<Rightarrow> (Inl e, s)
      | Inr obs \<Rightarrow>
          (case prepare_for_agent featurize cfg agent obs s of
             (Inl e, s1) \<Rightarrow> (Inl e, s1)
           | (Inr (arm_contexts_list, arm_indices_list, arm_scores_list), s1) \<Rightarrow>
               (let ranked = map (\<lambda>(arm_contexts, arm_indices, arm_scores).
                                    agent_rank agent arm_indices arm_contexts arm_scores)
                                 (zip arm_contexts_list (zip arm_indices_list arm_scores_list));
                    sorted_actions_list = map fst ranked;
                    proba_actions_list = map snd ranked;
                    action_scores_list = map sorted_action_scores arm_scores_list
                in case assign_list test_data_frame ''sorted_actions''
                          (map IntList sorted_actions_list) of
                     Inl e \<Rightarrow> (Inl e, s1)
                   | Inr df1 \<Rightarrow>
                       (case assign_list df1 ''prob_actions''
                               (map PyFloats proba_actions_list) of
                          Inl e \<Rightarrow> (Inl e, s1)
                        | Inr df2 \<Rightarrow>
                            (case assign_list df2 ''action_scores''
                                    (map PyFloats action_scores_list) of
                               Inl e \<Rightarrow> (Inl e, s1)
                             | Inr df3 \<Rightarrow> (Inr df3, s1))))))"

section \<open>Auxiliary notions for the statements\<close>

text \<open>
  The cached array is as it should be when it has not been computed yet, or when its
  first 100 entries are a rearrangement of the first 100 unique items of the combined
  train and validation data.
\<close>

definition unique_items_valid :: "task_state \<Rightarrow> bool" where
  "unique_items_valid s =
     (case cached_unique_items s of
        None \<Rightarrow> True
      | Some u \<Rightarrow> mset (take 100 u) = mset (take 100 (pd_unique (train_items s @ val_items s))))"

text \<open>The content of the array a call of \<open>_get_arm_indices\<close> returns, when it returns.\<close>

definition arm_indices_result ::
  "(py_error + arm_indices) \<times> task_state \<Rightarrow> py_error + int list" where
  "arm_indices_result r =
     (case fst r of Inl e \<Rightarrow> Inl e | Inr a \<Rightarrow> Inr (read_arm_indices (snd r) a))"

text \<open>A small configuration and task for concrete runs.\<close>

definition example_cfg :: project_config where
  "example_cfg =
     \<lparr>user_column = ''user'', item_column = ''item'', other_input_columns = [''hour''],
      output_column = ''buy'', auxiliar_output_columns = [''ps''],
      hist_view_column_name = ''hist_view'', hist_output_column_name = ''hist_buy'',
      available_arms_column_name = Some ''arms''\<rparr>"

definition example_state :: task_state where
  "example_state =
     \<lparr>rng_state = (\<lambda>k. Suc k, 0), cached_unique_items = None,
      train_items = [3, 1, 3], val_items = [2, 1], batch_size = 3\<rparr>"

text \<open>Every row of a frame has one cell per column.\<close>

definition wf_df :: "data_frame \<Rightarrow> bool" where
  "wf_df df = list_all (\<lambda>r. length r = length (df_columns df)) (df_rows df)"

text \<open>The guarded assignment \<open>if c not in df: df[c] = v\<close> that the fill steps share.\<close>

definition fill_absent :: "pyval \<Rightarrow> string \<Rightarrow> data_frame \<Rightarrow> data_frame" where
  "fill_absent v c df = (if c \<notin> set (df_columns df) then assign_scalar df c v else df)"

text \<open>What a frame built from dictionaries holds for a key: the value, or \<open>NaN\<close>.\<close>

definition value_or_nan :: "observation \<Rightarrow> string \<Rightarrow> pyval" where
  "value_or_nan ob c = (case ob c of None \<Rightarrow> NaN | Some v \<Rightarrow> v)"





text \<open>
  An agent for concrete runs: the context of a row is its item cell, the reward model
  returns one row for each context of the batch, holding the score \<open>n / 10\<close> of the item
  \<open>n\<close>, and the ranking keeps the order it is given.
\<close>

definition example_featurize :: "pyval \<Rightarrow> string list \<Rightarrow> pyval list \<Rightarrow> pyval" where
  "example_featurize metadata cols row = row ! index_of ''item'' cols"

definition example_score :: "pyval \<Rightarrow> pyfloat" where
  "example_score c = (case c of PyInt n \<Rightarrow> PyFloat (of_int n / 10) | _ \<Rightarrow> PyFloat 0)"

definition example_forward :: "pyval list \<Rightarrow> pyfloat list list" where
  "example_forward batch = map (\<lambda>c. [example_score c]) batch"

definition example_agent :: "pyval bandit_agent" where
  "example_agent =
     \<lparr>reward_model = Some (TensorModule example_forward),
      calculate_scores = (\<lambda>arm_indices arm_contexts. map (\<lambda>a. PyFloat (of_int a)) arm_indices),
      agent_rank = (\<lambda>arm_indices arm_contexts arm_scores. (arm_indices, arm_scores))\<rparr>"



definition example_test_frame :: data_frame where
  "example_test_frame =
     \<lparr>df_columns = [''user'', ''hour'', ''item'', ''arms''],
      df_rows = [[PyInt 7, PyInt 3, PyInt 2, IntList [1, 2]],
                 [PyInt 8, PyInt 4, PyInt 0, IntList []]]\<rparr>"

definition example_csv :: data_frame where
  "example_csv =
     \<lparr>df_columns = [''user'', ''hour'', ''item'', ''arms'', ''sorted_actions'',
                    ''prob_actions'', ''action_scores''],
      df_rows = [[PyInt 7, PyInt 3, PyInt 2, IntList [1, 2], IntList [1, 2],
                  PyFloats [PyFloat (1 / 10), PyFloat (2 / 10)],
                  PyFloats [PyFloat (2 / 10), PyFloat (1 / 10)]],
                 [PyInt 8, PyInt 4, PyInt 0, IntList [], IntList [0],
                  PyFloats [PyFloat 0], PyFloats [PyFloat 0]]]\<rparr>"

text \<open>A test frame that already has a column named \<open>action_scores\<close>.\<close>

definition clash_test_frame :: data_frame where
  "clash_test_frame =
     \<lparr>df_columns = [''user'', ''hour'', ''item'', ''arms'', ''action_scores''],
      df_rows = [[PyInt 7, PyInt 3, PyInt 2, IntList [1, 2], PyStr ''logged'']]\<rparr>"

definition clash_csv :: data_frame where
  "clash_csv =
     \<lparr>df_columns = [''user'', ''hour'', ''item'', ''arms'', ''action_scores'',
                    ''sorted_actions'', ''prob_actions''],
      df_rows = [[PyInt 7, PyInt 3, PyInt 2, IntList [1, 2],
                  PyFloats [PyFloat (2 / 10), PyFloat (1 / 10)],
                  IntList [1, 2], PyFloats [PyFloat (1 / 10), PyFloat (2 / 10)]]]\<rparr>"




section \<open>Running a training task\<close>

text \<open>
  \<open>except Exception\<close> catches the exceptions derived from \<open>Exception\<close>;
  \<open>KeyboardInterrupt\<close> and \<open>SystemExit\<close> derive from \<open>BaseException\<close> only.
\<close>

definition is_Exception :: "py_error \<Rightarrow> bool" where
  "is_Exception e = (e \<noteq> KeyboardInterrupt \<and> e \<noteq> SystemExit)"

text \<open>
  What \<open>run\<close> touches: the task's output directory (the names of the files in it, \<open>None\<close>
  when the directory does not exist) and the devices handed back to \<open>CudaRepository\<close>.
\<close>

record run_state =
  output_dir :: "string list option"
  available_devices :: "nat list"

text \<open>\<open>os.makedirs(path, exist_ok=True)\<close>.\<close>

definition makedirs :: "run_state \<Rightarrow> run_state" where
  "makedirs s = (case output_dir s of None \<Rightarrow> s\<lparr>output_dir := Some []\<rparr> | Some files \<Rightarrow> s)"

text \<open>\<open>_save_params\<close> writes \<open>params.json\<close> into the output directory.\<close>

definition save_params :: "run_state \<Rightarrow> run_state" where
  "save_params s =
     (case output_dir s of
        None \<Rightarrow> s
      | Some files \<Rightarrow>
          s\<lparr>output_dir :=
              Some (if ''params.json'' \<in> set files then files else files @ [''params.json''])\<rparr>)"

text \<open>\<open>shutil.rmtree(path)\<close>; a missing directory is a \<open>FileNotFoundError\<close>.\<close>

definition rmtree :: "run_state \<Rightarrow> (py_error + unit) \<times> run_state" where
  "rmtree s =
     (case output_dir s of
        None \<Rightarrow> (Inl FileNotFoundError, s)
      | Some files \<Rightarrow> (Inr (), s\<lparr>output_dir := None\<rparr>))"

text \<open>The \<open>finally\<close> clause: a cuda device goes back to the repository.\<close>

definition release_device :: "string \<Rightarrow> nat \<Rightarrow> run_state \<Rightarrow> run_state" where
  "release_device device device_id s =
     (if device = ''cuda'' then s\<lparr>available_devices := device_id # available_devices s\<rparr> else s)"

text \<open>
  \<open>_BaseModelTraining.run\<close> of \<open>mars_gym/simulation/training.py\<close>;
  \<open>BaseModelTraining.run\<close> of \<open>recommendation/task/model/base.py\<close> has the same
  \<open>try\<close> statement inside an mlflow run. \<open>train\<close> is the abstract method: it may
  write into the directory and may raise. Seeding the generators does not touch the
  state kept here.
  \<^verbatim>\<open>
  os.makedirs(self.output().path, exist_ok=True)
  self._save_params()
  try: self.train()
  except Exception: shutil.rmtree(self.output().path); raise
  finally: ...
  \<close>
\<close>

definition run ::
  "(run_state \<Rightarrow> (py_error + unit) \<times> run_state) \<Rightarrow> string \<Rightarrow> nat \<Rightarrow> run_state
     \<Rightarrow> (py_error + unit) \<times> run_state" where
  "run train device device_id s =
     (case train (save_params (makedirs s)) of
        (Inr u, s1) \<Rightarrow> (Inr u, release_device device device_id s1)
      | (Inl e, s1) \<Rightarrow>
          (if is_Exception e
           then (case rmtree s1 of
                   (Inl e', s2) \<Rightarrow> (Inl e', release_device device device_id s2)
                 | (Inr u, s2) \<Rightarrow> (Inl e, release_device device device_id s2))
           else (Inl e, release_device device device_id s1)))"

text \<open>
  Two training methods for concrete runs: each writes \<open>summary.txt\<close> and then raises,
  one a \<open>RuntimeError\<close>, the other a \<open>KeyboardInterrupt\<close>.
\<close>

definition write_summary :: "run_state \<Rightarrow> run_state" where
  "write_summary s =
     (case output_dir s of
        None \<Rightarrow> s
      | Some files \<Rightarrow> s\<lparr>output_dir := Some (files @ [''summary.txt''])\<rparr>)"

definition train_failing :: "run_state \<Rightarrow> (py_error + unit) \<times> run_state" where
  "train_failing s = (Inl RuntimeError, write_summary s)"

definition train_interrupted :: "run_state \<Rightarrow> (py_error + unit) \<times> run_state" where
  "train_interrupted s = (Inl KeyboardInterrupt, write_summary s)"

definition fresh_run_state :: run_state where
  "fresh_run_state = \<lparr>output_dir = None, available_devices = []\<rparr>"

section \<open>The contextual bandit network\<close>

text \<open>
  The arithmetic of the network is floating point and is left out: a two-dimensional
  tensor is modelled by its shape, the number of rows (the batch) and of columns. The
  shape is what decides whether \<open>torch.cat\<close>, a linear layer or an embedding raises. A
  representation that may be \<open>None\<close> is a \<open>tensor option\<close>.
\<close>

type_synonym tensor = "nat \<times> nat"

text \<open>
  \<open>torch.cat(tensors, dim=1)\<close>: \<open>TypeError\<close> when an element is \<open>None\<close>,
  \<open>RuntimeError\<close> for an empty list or for tensors with different numbers of rows.
\<close>

definition torch_cat :: "tensor option list \<Rightarrow> py_error + tensor" where
  "torch_cat ts =
     (if None \<in> set ts then Inl TypeError
      else (case map the ts of
              [] \<Rightarrow> Inl RuntimeError
            | (b, c) # rest \<Rightarrow>
                if list_all (\<lambda>t. fst t = b) rest
                then Inr (b, c + sum_list (map snd rest))
                else Inl RuntimeError))"

text \<open>\<open>nn.Linear(n_in, n_out)\<close> applied to a tensor.\<close>

definition linear_apply :: "nat \<times> nat \<Rightarrow> tensor option \<Rightarrow> py_error + tensor" where
  "linear_apply layer x =
     (case x of
        None \<Rightarrow> Inl TypeError
      | Some (b, c) \<Rightarrow> if c = fst layer then Inr (b, snd layer) else Inl RuntimeError)"

text \<open>\<open>nn.Embedding(n, dim)\<close> applied to a batch of indices.\<close>

definition embedding_apply :: "nat \<times> nat \<Rightarrow> int list \<Rightarrow> py_error + tensor" where
  "embedding_apply emb ids =
     (if list_all (\<lambda>i. 0 \<le> i \<and> i < int (fst emb)) ids
      then Inr (length ids, snd emb) else Inl IndexError)"

text \<open>\<open>x = v if self.none_tensor(x) else torch.cat((x, v), dim=1)\<close>.\<close>

definition cat_onto :: "tensor option \<Rightarrow> tensor option \<Rightarrow> py_error + tensor option" where
  "cat_onto x v =
     (if x = None then Inr v
      else (case torch_cat [x, v] of Inl e \<Rightarrow> Inl e | Inr t \<Rightarrow> Inr (Some t)))"

text \<open>
  A size given to a layer: a Python int, or a numpy float of a whole value, which is
  what \<open>np.sum\<close> gives for an empty list.
\<close>

datatype py_dim = IntDim nat | FloatDim nat

fun dim_value :: "py_dim \<Rightarrow> nat" where
  "dim_value (IntDim n) = n"
| "dim_value (FloatDim n) = n"

text \<open>\<open>a + b\<close>: a float as soon as one of the two is.\<close>

fun add_dim :: "py_dim \<Rightarrow> py_dim \<Rightarrow> py_dim" where
  "add_dim (IntDim m) (IntDim n) = IntDim (m + n)"
| "add_dim a b = FloatDim (dim_value a + dim_value b)"

text \<open>\<open>np.sum\<close> of a list of ints: an integer, but the float 0.0 for the empty list.\<close>

definition np_sum :: "nat list \<Rightarrow> py_dim" where
  "np_sum xs = (if xs = [] then FloatDim 0 else IntDim (sum_list xs))"

text \<open>
  \<open>nn.Linear(in_features, out_features)\<close>, here the pair of the two numbers; a float as a
  size is a \<open>TypeError\<close>. The weight of the layer has the shape
  \<open>[out_features, in_features]\<close>.
\<close>

definition nn_Linear :: "py_dim \<Rightarrow> nat \<Rightarrow> py_error + (nat \<times> nat)" where
  "nn_Linear in_features out_features =
     (case in_features of
        IntDim n \<Rightarrow> Inr (n, out_features)
      | FloatDim n \<Rightarrow> Inl TypeError)"

definition linear_weight :: "nat \<times> nat \<Rightarrow> nat list" where
  "linear_weight layer = [snd layer, fst layer]"

text \<open>
  An initialiser is called on a weight tensor, here on its shape, and may raise.
  \<open>self.apply(self.init_weights)\<close> calls it on the weights of the layers in the order in
  which they were added to the module; the first exception ends it.
\<close>

type_synonym initialiser = "nat list \<Rightarrow> py_error option"

fun init_weights :: "initialiser \<Rightarrow> nat list list \<Rightarrow> py_error option" where
  "init_weights weight_init [] = None"
| "init_weights weight_init (weight # weights) =
     (case weight_init weight of
        Some e \<Rightarrow> Some e
      | None \<Rightarrow> init_weights weight_init weights)"

text \<open>
  Modelled from the spec: \<open>lecun_normal_init\<close> of \<open>recommendation.utils\<close>, the default
  initialiser of the networks, is not among the sources. It draws the weights from a
  normal distribution of variance \<open>1 / fan_in\<close>, where the fan-in of a weight is the
  product of its dimensions after the first. A weight of fewer than two dimensions is a
  \<open>ValueError\<close>, a fan-in of 0 a \<open>ZeroDivisionError\<close>.
\<close>

definition lecun_normal_init :: initialiser where
  "lecun_normal_init shape =
     (if length shape < 2 then Some ValueError
      else if prod_list (tl shape) = 0 then Some ZeroDivisionError
      else None)"

subsection \<open>LogisticRegression\<close>

record logistic_regression =
  lr_linear :: "nat \<times> nat"

text \<open>The layers of the module, in the order in which \<open>apply\<close> visits them.\<close>

definition lr_layers :: "logistic_regression \<Rightarrow> (nat \<times> nat) list" where
  "lr_layers self = [lr_linear self]"

text \<open>
  \<open>LogisticRegression.__init__\<close>: the layer is created, then its weight initialised.
\<close>

definition LogisticRegression :: "py_dim \<Rightarrow> initialiser \<Rightarrow> py_error + logistic_regression" where
  "LogisticRegression n_factors weight_init =
     (case nn_Linear n_factors 1 of
        Inl e \<Rightarrow> Inl e
      | Inr linear_layer \<Rightarrow>
          (let self = \<lparr>lr_linear = linear_layer\<rparr>
           in case init_weights weight_init (map linear_weight (lr_layers self)) of
                Some e \<Rightarrow> Inl e
              | None \<Rightarrow> Inr self))"

text \<open>The result is the shape of the tensor of probabilities.\<close>

definition lr_predict ::
  "logistic_regression \<Rightarrow> tensor option \<Rightarrow> tensor option \<Rightarrow> tensor option
     \<Rightarrow> py_error + nat list" where
  "lr_predict self item_representation user_representation context_representation =
     (case (if user_representation \<noteq> None
            then cat_onto context_representation user_representation
            else Inr context_representation) of
        Inl e \<Rightarrow> Inl e
      | Inr x \<Rightarrow>
          (case (if item_representation \<noteq> None then cat_onto x item_representation
                 else Inr x) of
             Inl e \<Rightarrow> Inl e
           | Inr x \<Rightarrow>
               (case linear_apply (lr_linear self) x of
                  Inl e \<Rightarrow> Inl e
                | Inr (b, c) \<Rightarrow> Inr [b, c])))"

subsection \<open>DeepFactorizationMachine\<close>

text \<open>
  The attributes \<open>context\<close>, \<open>item\<close> and \<open>user\<close> exist only when the corresponding input
  dimension is positive.
\<close>

record deep_factorization_machine =
  dfm_context :: "(nat \<times> nat) option"
  dfm_item :: "(nat \<times> nat) option"
  dfm_user :: "(nat \<times> nat) option"
  dfm_linear :: "nat \<times> nat"
  dfm_deep :: bool
  dfm_hidden_layers :: "(nat \<times> nat) list"
  dfm_deep_linear_out :: "nat \<times> nat"
  dfm_order :: int

text \<open>\<open>if input_dim > 0: self.layer = nn.Linear(input_dim, n_factors)\<close>.\<close>

definition optional_linear :: "py_dim \<Rightarrow> nat \<Rightarrow> py_error + (nat \<times> nat) option" where
  "optional_linear input_dim n_factors =
     (if 0 < dim_value input_dim
      then (case nn_Linear input_dim n_factors of
              Inl e \<Rightarrow> Inl e
            | Inr layer \<Rightarrow> Inr (Some layer))
      else Inr None)"

fun layer_list :: "(nat \<times> nat) option \<Rightarrow> (nat \<times> nat) list" where
  "layer_list None = []"
| "layer_list (Some layer) = [layer]"

text \<open>The layers of the module, in the order in which \<open>apply\<close> visits them.\<close>

definition dfm_layers :: "deep_factorization_machine \<Rightarrow> (nat \<times> nat) list" where
  "dfm_layers self =
     layer_list (dfm_context self) @ layer_list (dfm_item self) @ layer_list (dfm_user self)
     @ [dfm_linear self] @ dfm_hidden_layers self @ [dfm_deep_linear_out self]"

text \<open>
  \<open>DeepFactorizationMachine.__init__\<close>: the layers are created in the order of the
  source, \<open>hidden_layers[-1]\<close> is an \<open>IndexError\<close> for an empty list, and at the end the
  weights of all the layers are initialised.
\<close>

definition DeepFactorizationMachine ::
  "nat \<Rightarrow> py_dim \<Rightarrow> py_dim \<Rightarrow> py_dim \<Rightarrow> int \<Rightarrow> initialiser \<Rightarrow> bool \<Rightarrow> nat list
     \<Rightarrow> py_error + deep_factorization_machine" where
  "DeepFactorizationMachine n_factors context_input_dim item_input_dim user_input_dim
       order weight_init deep hidden_layers =
     (case optional_linear context_input_dim n_factors of
        Inl e \<Rightarrow> Inl e
      | Inr context_layer \<Rightarrow>
     (case optional_linear item_input_dim n_factors of
        Inl e \<Rightarrow> Inl e
      | Inr item_layer \<Rightarrow>
     (case optional_linear user_input_dim n_factors of
        Inl e \<Rightarrow> Inl e
      | Inr user_layer \<Rightarrow>
     (case nn_Linear (add_dim (add_dim context_input_dim item_input_dim) user_input_dim) 1 of
        Inl e \<Rightarrow> Inl e
      | Inr linear_layer \<Rightarrow>
     (case hidden_layers of
        [] \<Rightarrow> Inl IndexError
      | _ # _ \<Rightarrow>
          (let input_dnn = (if 0 < dim_value context_input_dim then n_factors else 0)
                           + (if 0 < dim_value item_input_dim then n_factors else 0)
                           + (if 0 < dim_value user_input_dim then n_factors else 0);
               self = \<lparr>dfm_context = context_layer,
                       dfm_item = item_layer,
                       dfm_user = user_layer,
                       dfm_linear = linear_layer,
                       dfm_deep = deep,
                       dfm_hidden_layers = zip (input_dnn # butlast hidden_layers) hidden_layers,
                       dfm_deep_linear_out = (last hidden_layers, 1),
                       dfm_order = order\<rparr>
           in case init_weights weight_init (map linear_weight (dfm_layers self)) of
                Some e \<Rightarrow> Inl e
              | None \<Rightarrow> Inr self))))))"

text \<open>
  One step of the latent-vector stage:
  \<^verbatim>\<open>if not self.none_tensor(rep): latent_vectors.append(self.linear_module(rep))\<close>.
\<close>

definition latent_step ::
  "(nat \<times> nat) option \<Rightarrow> tensor option \<Rightarrow> tensor list \<Rightarrow> py_error + tensor list" where
  "latent_step linear_module rep latent_vectors =
     (case rep of
        None \<Rightarrow> Inr latent_vectors
      | Some t \<Rightarrow>
          (case linear_module of
             None \<Rightarrow> Inl AttributeError
           | Some layer \<Rightarrow>
               (case linear_apply layer (Some t) of
                  Inl e \<Rightarrow> Inl e
                | Inr v \<Rightarrow> Inr (latent_vectors @ [v]))))"

text \<open>
  The first-order loop
  \<^verbatim>\<open>for v in [item, user, context]: x = v if self.none_tensor(x) else torch.cat((x, v), dim=1)\<close>.
\<close>

fun first_order :: "tensor option list \<Rightarrow> tensor option \<Rightarrow> py_error + tensor option" where
  "first_order [] x = Inr x"
| "first_order (v # vs) x =
     (case cat_onto x v of Inl e \<Rightarrow> Inl e | Inr x' \<Rightarrow> first_order vs x')"

text \<open>\<open>itertools.combinations(xs, 2)\<close>.\<close>

fun combinations2 :: "'a list \<Rightarrow> ('a \<times> 'a) list" where
  "combinations2 [] = []"
| "combinations2 (x # xs) = map (Pair x) xs @ combinations2 xs"

text \<open>
  \<open>torch.bmm(a.unsqueeze(1), b.unsqueeze(2)).squeeze(1)\<close>: one column per row, for two
  tensors of the same shape.
\<close>

definition dot :: "tensor \<Rightarrow> tensor \<Rightarrow> py_error + tensor" where
  "dot a b = (if a = b then Inr (fst a, 1) else Inl RuntimeError)"

fun cat_dots :: "tensor \<Rightarrow> (tensor \<times> tensor) list \<Rightarrow> py_error + tensor" where
  "cat_dots x [] = Inr x"
| "cat_dots x ((a, b) # ps) =
     (case dot a b of
        Inl e \<Rightarrow> Inl e
      | Inr d \<Rightarrow>
          (case torch_cat [Some x, Some d] of Inl e \<Rightarrow> Inl e | Inr x' \<Rightarrow> cat_dots x' ps))"

text \<open>
  The loop over \<open>k\<close> in \<open>range(2, order + 1)\<close>: for \<open>k = 2\<close> the pairs; for a larger \<open>k\<close>
  that is at most the number of latent vectors, unpacking a combination into \<open>a, b\<close>
  raises \<open>ValueError\<close>.
\<close>

definition higher_order :: "int \<Rightarrow> tensor list \<Rightarrow> tensor \<Rightarrow> py_error + tensor" where
  "higher_order order latent_vectors x =
     (if order < 2 then Inr x
      else (case cat_dots x (combinations2 latent_vectors) of
              Inl e \<Rightarrow> Inl e
            | Inr x' \<Rightarrow>
                if 3 \<le> order \<and> 3 \<le> length latent_vectors then Inl ValueError else Inr x'))"

fun apply_layers :: "(nat \<times> nat) list \<Rightarrow> tensor \<Rightarrow> py_error + tensor" where
  "apply_layers [] v = Inr v"
| "apply_layers (layer # layers) v =
     (case linear_apply layer (Some v) of Inl e \<Rightarrow> Inl e | Inr v' \<Rightarrow> apply_layers layers v')"

definition deep_model ::
  "deep_factorization_machine \<Rightarrow> tensor list \<Rightarrow> tensor \<Rightarrow> py_error + tensor" where
  "deep_model self latent_vectors x =
     (if dfm_deep self then
        (case torch_cat (map Some latent_vectors) of
           Inl e \<Rightarrow> Inl e
         | Inr v \<Rightarrow>
             (case apply_layers (dfm_hidden_layers self) v of
                Inl e \<Rightarrow> Inl e
              | Inr v \<Rightarrow>
                  (case linear_apply (dfm_deep_linear_out self) (Some v) of
                     Inl e \<Rightarrow> Inl e
                   | Inr v \<Rightarrow> torch_cat [Some x, Some v])))
      else Inr x)"

definition dfm_predict ::
  "deep_factorization_machine \<Rightarrow> tensor option \<Rightarrow> tensor option \<Rightarrow> tensor option
     \<Rightarrow> py_error + nat list" where
  "dfm_predict self item_representation user_representation context_representation =
     (case latent_step (dfm_context self) context_representation [] of
        Inl e \<Rightarrow> Inl e
      | Inr lv1 \<Rightarrow>
     (case latent_step (dfm_item self) item_representation lv1 of
        Inl e \<Rightarrow> Inl e
      | Inr lv2 \<Rightarrow>
     (case latent_step (dfm_user self) user_representation lv2 of
        Inl e \<Rightarrow> Inl e
      | Inr latent_vectors \<Rightarrow>
     (case first_order [item_representation, user_representation, context_representation]
             None of
        Inl e \<Rightarrow> Inl e
      | Inr x \<Rightarrow>
     (case linear_apply (dfm_linear self) x of
        Inl e \<Rightarrow> Inl e
      | Inr x \<Rightarrow>
     (case higher_order (dfm_order self) latent_vectors x of
        Inl e \<Rightarrow> Inl e
      | Inr x \<Rightarrow>
     (case deep_model self latent_vectors x of
        Inl e \<Rightarrow> Inl e
      | Inr (b, c) \<Rightarrow> Inr [b])))))))"

subsection \<open>ContextualBandit\<close>

text \<open>The arguments of the constructor that shape the network.\<close>

record bandit_params =
  n_users :: nat
  n_items :: nat
  n_factors :: nat
  vocab_size :: nat
  word_embeddings_size :: nat
  num_filters :: nat
  filter_sizes :: "nat list"
  use_buys_visits :: bool
  user_embeddings :: bool
  item_embeddings :: bool
  use_numerical_content :: bool
  numerical_content_dim :: "nat option"
  context_embeddings :: bool
  use_textual_content :: bool
  use_normalize :: bool
  predictor :: string
  fm_order :: int
  fm_deep :: bool
  fm_hidden_layers :: "nat list"
  weight_init :: initialiser

datatype predictor_module =
    LR logistic_regression
  | FM deep_factorization_machine

text \<open>
  The module after construction. \<open>self.user_embeddings\<close> and \<open>self.item_embeddings\<close> are
  \<open>False\<close> (here \<open>None\<close>) or the embedding table that replaced the flag.
\<close>

record contextual_bandit =
  self_user_embeddings :: "(nat \<times> nat) option"
  self_item_embeddings :: "(nat \<times> nat) option"
  self_use_textual_content :: bool
  self_num_filters :: nat
  self_filter_sizes :: "nat list"
  self_use_numerical_content :: bool
  self_use_buys_visits :: bool
  self_use_normalize :: bool
  self_predictor :: predictor_module

definition user_input_dim :: "bandit_params \<Rightarrow> nat" where
  "user_input_dim p = (if user_embeddings p then n_factors p else 0)"

text \<open>
  \<open>item_input_dim\<close>: with textual content \<open>np.sum([K * num_filters for K in filter_sizes])\<close>
  is added to it.
\<close>

definition item_input_dim :: "bandit_params \<Rightarrow> py_dim" where
  "item_input_dim p =
     (let d = IntDim (if item_embeddings p then n_factors p else 0)
      in if use_textual_content p
         then add_dim d (np_sum (map (\<lambda>K. K * num_filters p) (filter_sizes p)))
         else d)"

text \<open>
  \<open>context_input_dim\<close>; adding \<open>numerical_content_dim\<close> when it is \<open>None\<close> (its default)
  is a \<open>TypeError\<close>.
\<close>

definition context_input_dim :: "bandit_params \<Rightarrow> py_error + nat" where
  "context_input_dim p =
     (if context_embeddings p then
        (let d = (if use_buys_visits p then 2 else 0)
         in if use_numerical_content p
            then (case numerical_content_dim p of
                    None \<Rightarrow> Inl TypeError
                  | Some n \<Rightarrow> Inr (d + n))
            else Inr d)
      else Inr 0)"

text \<open>
  The weights that the constructor initialises itself, right after it has created each
  of them: those of the user, item and word embeddings.
\<close>

definition embedding_weights :: "bandit_params \<Rightarrow> nat list list" where
  "embedding_weights p =
     (if user_embeddings p then [[n_users p, n_factors p]] else [])
     @ (if item_embeddings p then [[n_items p, n_factors p]] else [])
     @ (if use_textual_content p then [[vocab_size p, word_embeddings_size p]] else [])"

text \<open>
  The weights of the convolutions
  \<open>nn.Conv2d(1, num_filters, (K, word_embeddings_size))\<close>, one for each filter size.
\<close>

definition conv_weights :: "bandit_params \<Rightarrow> nat list list" where
  "conv_weights p =
     (if use_textual_content p
      then map (\<lambda>K. [num_filters p, 1, K, word_embeddings_size p]) (filter_sizes p)
      else [])"

definition predictor_layers :: "predictor_module \<Rightarrow> (nat \<times> nat) list" where
  "predictor_layers m = (case m of LR lr \<Rightarrow> lr_layers lr | FM fm \<Rightarrow> dfm_layers fm)"

definition make_bandit :: "bandit_params \<Rightarrow> predictor_module \<Rightarrow> contextual_bandit" where
  "make_bandit p m =
     \<lparr>self_user_embeddings = (if user_embeddings p then Some (n_users p, n_factors p) else None),
      self_item_embeddings = (if item_embeddings p then Some (n_items p, n_factors p) else None),
      self_use_textual_content = use_textual_content p,
      self_num_filters = num_filters p,
      self_filter_sizes = filter_sizes p,
      self_use_numerical_content = use_numerical_content p,
      self_use_buys_visits = use_buys_visits p,
      self_use_normalize = use_normalize p,
      self_predictor = m\<rparr>"

text \<open>
  \<open>ContextualBandit.__init__\<close>: the embeddings are created and initialised, the input
  dimensions computed, the predictor built from its name, and at the end
  \<open>self.apply(self.init_weights)\<close> initialises the convolutions and, once more, the
  layers of the predictor.
\<close>

definition ContextualBandit :: "bandit_params \<Rightarrow> py_error + contextual_bandit" where
  "ContextualBandit p =
     (case init_weights (weight_init p) (embedding_weights p) of
        Some e \<Rightarrow> Inl e
      | None \<Rightarrow>
     (case context_input_dim p of
        Inl e \<Rightarrow> Inl e
      | Inr context_dim \<Rightarrow>
     (case (if predictor p = ''logistic_regression'' then
              (case LogisticRegression
                      (add_dim (add_dim (item_input_dim p) (IntDim context_dim))
                         (IntDim (user_input_dim p)))
                      (weight_init p) of
                 Inl e \<Rightarrow> Inl e
               | Inr lr \<Rightarrow> Inr (LR lr))
            else if predictor p = ''factorization_machine'' then
              (case DeepFactorizationMachine (n_factors p) (IntDim context_dim)
                      (item_input_dim p) (IntDim (user_input_dim p)) (fm_order p)
                      (weight_init p) (fm_deep p) (fm_hidden_layers p) of
                 Inl e \<Rightarrow> Inl e
               | Inr fm \<Rightarrow> Inr (FM fm))
            else Inl NotImplementedError) of
        Inl e \<Rightarrow> Inl e
      | Inr m \<Rightarrow>
          (case init_weights (weight_init p)
                  (conv_weights p @ map linear_weight (predictor_layers m)) of
             Some e \<Rightarrow> Inl e
           | None \<Rightarrow> Inr (make_bandit p m)))))"

text \<open>\<open>normalize\<close> keeps the shape, and \<open>None\<close>.\<close>

definition normalize :: "tensor option \<Rightarrow> tensor option" where
  "normalize x = x"

text \<open>
  \<open>conv_block\<close> on embedded tokens (a batch of \<open>l\<close> tokens each): every filter size
  gives \<open>num_filters\<close> columns after pooling, and must fit into the \<open>l\<close> tokens.
\<close>

definition conv_block :: "contextual_bandit \<Rightarrow> tensor \<Rightarrow> py_error + tensor" where
  "conv_block self x =
     (case x of
        (b, l) \<Rightarrow>
          if list_all (\<lambda>K. 0 < K \<and> K \<le> l) (self_filter_sizes self)
          then torch_cat (map (\<lambda>K. Some (b, self_num_filters self)) (self_filter_sizes self))
          else Inl RuntimeError)"

text \<open>
  The content of an item batch: the item indices, the token matrices of name,
  description and category (rows and tokens per row), the numerical information, and
  the lengths of the visit and purchase counts.
\<close>

record item_content =
  item_ids :: "int list"
  name_tokens :: tensor
  description_tokens :: tensor
  category_tokens :: tensor
  info :: tensor
  visits :: nat
  buys :: nat

definition compute_item_embeddings ::
  "contextual_bandit \<Rightarrow> item_content \<Rightarrow> py_error + tensor option" where
  "compute_item_embeddings self c =
     (case (if self_use_textual_content self then
              (case conv_block self (category_tokens c) of
                 Inl e \<Rightarrow> Inl e
               | Inr cnn_category \<Rightarrow>
                   (case conv_block self (description_tokens c) of
                      Inl e \<Rightarrow> Inl e
                    | Inr cnn_description \<Rightarrow>
                        (case conv_block self (name_tokens c) of
                           Inl e \<Rightarrow> Inl e
                         | Inr cnn_name \<Rightarrow>
                             (case torch_cat [Some cnn_category, Some cnn_description,
                                              Some cnn_name] of
                                Inl e \<Rightarrow> Inl e
                              | Inr x \<Rightarrow> Inr (Some x)))))
            else Inr None) of
        Inl e \<Rightarrow> Inl e
      | Inr x \<Rightarrow>
          (case (case self_item_embeddings self of
                   None \<Rightarrow> Inr x
                 | Some emb \<Rightarrow>
                     (case embedding_apply emb (item_ids c) of
                        Inl e \<Rightarrow> Inl e
                      | Inr item_embs \<Rightarrow> cat_onto x (Some item_embs))) of
             Inl e \<Rightarrow> Inl e
           | Inr x \<Rightarrow> Inr (if self_use_normalize self then normalize x else x)))"

definition compute_context_embeddings ::
  "contextual_bandit \<Rightarrow> item_content \<Rightarrow> py_error + tensor option" where
  "compute_context_embeddings self c =
     (let x = (if self_use_numerical_content self then Some (info c) else None)
      in case (if self_use_buys_visits self
               then (case (if x = None
                           then torch_cat [Some (visits c, 1), Some (buys c, 1)]
                           else torch_cat [x, Some (visits c, 1), Some (buys c, 1)]) of
                       Inl e \<Rightarrow> Inl e
                     | Inr t \<Rightarrow> Inr (Some t))
               else Inr x) of
           Inl e \<Rightarrow> Inl e
         | Inr x \<Rightarrow> Inr (if self_use_normalize self then normalize x else x))"

text \<open>
  \<open>compute_user_embeddings\<close>. The local variable \<open>out\<close> is bound only in the
  \<open>use_normalize\<close> branch; returning it unbound is an \<open>UnboundLocalError\<close>. When
  \<open>self.user_embeddings\<close> is still the flag \<open>False\<close>, calling it is a \<open>TypeError\<close>.
\<close>

definition compute_user_embeddings ::
  "contextual_bandit \<Rightarrow> int list \<Rightarrow> py_error + tensor option" where
  "compute_user_embeddings self user_ids =
     (case self_user_embeddings self of
        None \<Rightarrow> Inl TypeError
      | Some emb \<Rightarrow>
          (case embedding_apply emb user_ids of
             Inl e \<Rightarrow> Inl e
           | Inr user_emb \<Rightarrow>
               (let out = (if self_use_normalize self then Some (normalize (Some user_emb))
                           else None)
                in case out of
                     None \<Rightarrow> Inl UnboundLocalError
                   | Some v \<Rightarrow> Inr v)))"

definition predict ::
  "predictor_module \<Rightarrow> tensor option \<Rightarrow> tensor option \<Rightarrow> tensor option
     \<Rightarrow> py_error + nat list" where
  "predict m item_representation user_representation context_representation =
     (case m of
        LR lr \<Rightarrow> lr_predict lr item_representation user_representation context_representation
      | FM fm \<Rightarrow> dfm_predict fm item_representation user_representation context_representation)"

text \<open>\<open>forward\<close>; the result is the shape of \<open>prob\<close>.\<close>

definition forward ::
  "contextual_bandit \<Rightarrow> int list \<Rightarrow> item_content \<Rightarrow> py_error + nat list" where
  "forward self user_ids c =
     (case compute_context_embeddings self c of
        Inl e \<Rightarrow> Inl e
      | Inr context_representation \<Rightarrow>
          (case compute_item_embeddings self c of
             Inl e \<Rightarrow> Inl e
           | Inr item_representation \<Rightarrow>
               (case (if self_user_embeddings self \<noteq> None
                      then compute_user_embeddings self user_ids
                      else Inr None) of
                  Inl e \<Rightarrow> Inl e
                | Inr user_representation \<Rightarrow>
                    predict (self_predictor self) item_representation user_representation
                      context_representation)))"

text \<open>
  Constructor arguments for concrete runs: the defaults, with 4 factors. With them the
  predictor is a logistic regression without any input.
\<close>

definition example_params :: bandit_params where
  "example_params =
     \<lparr>n_users = 10, n_items = 20, n_factors = 4, vocab_size = 50, word_embeddings_size = 8,
      num_filters = 64, filter_sizes = [1, 3, 5], use_buys_visits = False,
      user_embeddings = False, item_embeddings = False, use_numerical_content = False,
      numerical_content_dim = None, context_embeddings = False, use_textual_content = False,
      use_normalize = False, predictor = ''logistic_regression'', fm_order = 1,
      fm_deep = False, fm_hidden_layers = [64, 32], weight_init = lecun_normal_init\<rparr>"

definition example_content :: item_content where
  "example_content =
     \<lparr>item_ids = [3, 5], name_tokens = (2, 6), description_tokens = (2, 6),
      category_tokens = (2, 6), info = (2, 3), visits = 2, buys = 2\<rparr>"

text \<open>
  A factorization machine over user embeddings and numerical context, with no item
  representation at all.
\<close>

definition example_fm_params :: bandit_params where
  "example_fm_params =
     example_params\<lparr>predictor := ''factorization_machine'', user_embeddings := True,
                    use_normalize := True, context_embeddings := True,
                    use_numerical_content := True, numerical_content_dim := Some 3\<rparr>"

text \<open>The representations among context, user and item that are not \<open>None\<close>.\<close>

definition given_representations ::
  "tensor option \<Rightarrow> tensor option \<Rightarrow> tensor option \<Rightarrow> tensor list" where
  "given_representations item_representation user_representation context_representation =
     map the (filter (\<lambda>r. r \<noteq> None)
                [context_representation, user_representation, item_representation])"

section \<open>Properties of the shuffle\<close>

lemma shuffle_from_mset:
  "i < length x \<Longrightarrow> mset (fst (shuffle_from i x g)) = mset x"
proof (induction i arbitrary: x g)
  case 0
  show ?case by simp
next
  case (Suc i)
  obtain f k where g: "g = (f, k)" by (cases g)
  let ?j = "f k mod (Suc i + 1)"
  have j: "?j < length x" using Suc.prems
    by (metis Suc_eq_plus1 less_Suc_eq_le less_le_trans linorder_not_less mod_less_divisor
        not_less_eq zero_less_Suc)
  have "mset (x[Suc i := x ! ?j, ?j := x ! Suc i]) = mset x"
    using mset_swap[OF j Suc.prems] .
  moreover have "i < length (x[Suc i := x ! ?j, ?j := x ! Suc i])"
    using Suc.prems by simp
  ultimately show ?case
    using Suc.IH[of "x[Suc i := x ! ?j, ?j := x ! Suc i]" "(f, Suc k)"] g by simp
qed

lemma shuffle_mset: "mset (fst (shuffle x g)) = mset x"
proof (cases x)
  case Nil
  then show ?thesis by (simp add: shuffle_def)
next
  case (Cons a as)
  then show ?thesis by (simp add: shuffle_def shuffle_from_mset)
qed

lemma shuffle_length: "length (fst (shuffle x g)) = length x"
  using shuffle_mset[of x g] by (metis size_mset)

lemma shuffle_set: "set (fst (shuffle x g)) = set x"
  using shuffle_mset[of x g] by (metis set_mset_mset)

section \<open>The candidate arms of an observation\<close>

lemma get_arm_indices_owned:
  assumes "truthy_name (available_arms_column_name cfg)"
    and "ob (the (available_arms_column_name cfg)) = Some a"
    and "flatnonzero a = p"
  shows "get_arm_indices cfg ob s =
           (Inr (Owned (fst (shuffle p (rng_state s)))),
            s\<lparr>rng_state := snd (shuffle p (rng_state s))\<rparr>)"
  using assms by (simp add: get_arm_indices_def split: prod.splits)

lemma get_arm_indices_view:
  assumes "\<not> truthy_name (available_arms_column_name cfg)"
  shows "get_arm_indices cfg ob s =
           (let u = fst (unique_items s); s1 = snd (unique_items s);
                r = shuffle (take 100 u) (rng_state s1)
            in (Inr UniqueItemsView,
                s1\<lparr>rng_state := snd r, cached_unique_items := Some (fst r @ drop 100 u)\<rparr>))"
  using assms by (simp add: get_arm_indices_def Let_def split: prod.splits)

lemma unique_items_fst:
  "unique_items_valid s \<Longrightarrow>
     mset (take 100 (fst (unique_items s))) = mset (take 100 (pd_unique (train_items s @ val_items s)))"
  by (simp add: unique_items_def unique_items_valid_def Let_def split: option.splits)

lemma unique_items_snd:
  "train_items (snd (unique_items s)) = train_items s \<and> val_items (snd (unique_items s)) = val_items s
   \<and> rng_state (snd (unique_items s)) = rng_state s"
  by (simp add: unique_items_def Let_def split: option.splits)

lemma take_shuffled: "take 100 (fst (shuffle (take 100 u) g) @ drop 100 u) = fst (shuffle (take 100 u) g)"
proof (cases "100 \<le> length u")
  case True
  then have "length (fst (shuffle (take 100 u) g)) = 100" by (simp add: shuffle_length)
  then show ?thesis by simp
next
  case False
  then show ?thesis by (simp add: shuffle_length)
qed

text \<open>
  C3. With an available-arms column, \<open>_get_arm_indices\<close> returns a rearrangement of
  the positions of the non-zero entries of the observation's availability vector
  (\<open>flatnonzero\<close> of the entry);
  without one, a rearrangement of the first 100 unique items of the combined train and
  validation data (and the cache stays as it should be for the next call). In both
  cases the set of the returned arms is the same for every state of the random
  generator.
\<close>

theorem get_arm_indices_permutation:
  "(truthy_name (available_arms_column_name cfg) \<longrightarrow>
      ob (the (available_arms_column_name cfg)) = Some a \<longrightarrow>
      (\<exists>xs. arm_indices_result (get_arm_indices cfg ob s) = Inr xs \<and>
            mset xs = mset (flatnonzero a) \<and>
            (\<forall>g. map_sum id set (arm_indices_result (get_arm_indices cfg ob (s\<lparr>rng_state := g\<rparr>))) = Inr (set xs))))
   \<and> (\<not> truthy_name (available_arms_column_name cfg) \<longrightarrow> unique_items_valid s \<longrightarrow>
      (\<exists>xs. arm_indices_result (get_arm_indices cfg ob s) = Inr xs \<and>
            mset xs = mset (take 100 (pd_unique (train_items s @ val_items s))) \<and>
            unique_items_valid (snd (get_arm_indices cfg ob s)) \<and>
            (\<forall>g. map_sum id set (arm_indices_result (get_arm_indices cfg ob (s\<lparr>rng_state := g\<rparr>))) = Inr (set xs))))"
proof (intro conjI impI)
  assume t: "truthy_name (available_arms_column_name cfg)"
    and o: "ob (the (available_arms_column_name cfg)) = Some a"
  show "\<exists>xs. arm_indices_result (get_arm_indices cfg ob s) = Inr xs \<and>
            mset xs = mset (flatnonzero a) \<and>
            (\<forall>g. map_sum id set (arm_indices_result (get_arm_indices cfg ob (s\<lparr>rng_state := g\<rparr>))) = Inr (set xs))"
    by (rule exI[of _ "fst (shuffle (flatnonzero a) (rng_state s))"])
       (simp add: get_arm_indices_owned[of cfg ob a "flatnonzero a", OF t o refl]
          arm_indices_result_def shuffle_mset shuffle_set)
next
  assume t: "\<not> truthy_name (available_arms_column_name cfg)" and v: "unique_items_valid s"
  let ?u = "fst (unique_items s)"
  let ?xs = "fst (shuffle (take 100 ?u) (rng_state s))"
  have u': "fst (unique_items (s\<lparr>rng_state := g\<rparr>)) = ?u" for g
    by (simp add: unique_items_def Let_def split: option.splits)
  have r: "arm_indices_result (get_arm_indices cfg ob t) =
             Inr (fst (shuffle (take 100 (fst (unique_items t))) (rng_state t)))" for t
    by (simp add: get_arm_indices_view[OF t] arm_indices_result_def Let_def take_shuffled
        unique_items_snd del: take_append)
  have m: "mset ?xs = mset (take 100 (pd_unique (train_items s @ val_items s)))"
    by (simp add: shuffle_mset unique_items_fst[OF v])
  have inv: "unique_items_valid (snd (get_arm_indices cfg ob s))"
    using m by (simp add: get_arm_indices_view[OF t] Let_def unique_items_valid_def
        take_shuffled unique_items_snd del: take_append)
  have indep: "map_sum id set (arm_indices_result (get_arm_indices cfg ob (s\<lparr>rng_state := g\<rparr>))) = Inr (set ?xs)" for g
    by (simp add: r u' shuffle_set)
  show "\<exists>xs. arm_indices_result (get_arm_indices cfg ob s) = Inr xs \<and>
            mset xs = mset (take 100 (pd_unique (train_items s @ val_items s))) \<and>
            unique_items_valid (snd (get_arm_indices cfg ob s)) \<and>
            (\<forall>g. map_sum id set (arm_indices_result (get_arm_indices cfg ob (s\<lparr>rng_state := g\<rparr>))) = Inr (set xs))"
    using r[of s] m inv indep by blast
qed

theorem get_arm_indices_permutation_witness:
  "(\<exists>xs. arm_indices_result
            (get_arm_indices example_cfg [''arms'' \<mapsto> FloatList [0, 1, 1, 0, 1]] example_state)
          = Inr xs \<and> mset xs = mset [1, 2, 4])
   \<and> (\<exists>xs. arm_indices_result
            (get_arm_indices (example_cfg\<lparr>available_arms_column_name := None\<rparr>) Map.empty
               example_state) = Inr xs \<and> mset xs = mset [3, 1, 2])"
proof -
  have t: "truthy_name (available_arms_column_name example_cfg)"
    and o: "[''arms'' \<mapsto> FloatList [0, 1, 1, 0, 1]] (the (available_arms_column_name example_cfg))
             = Some (FloatList [0, 1, 1, 0, 1])"
    and f: "flatnonzero (FloatList [0, 1, 1, 0, 1]) = [1, 2, 4]"
    by (simp_all add: example_cfg_def nonzero_positions_def upt_rec)
  have n: "\<not> truthy_name (available_arms_column_name (example_cfg\<lparr>available_arms_column_name := None\<rparr>))"
    and v: "unique_items_valid example_state"
    and u: "take 100 (pd_unique (train_items example_state @ val_items example_state)) = [3, 1, 2]"
    by (simp_all add: unique_items_valid_def example_state_def)
  from get_arm_indices_permutation
         [of example_cfg "[''arms'' \<mapsto> FloatList [0, 1, 1, 0, 1]]" "FloatList [0, 1, 1, 0, 1]"
             example_state] t o
  have a: "\<exists>xs. arm_indices_result
            (get_arm_indices example_cfg [''arms'' \<mapsto> FloatList [0, 1, 1, 0, 1]] example_state)
          = Inr xs \<and> mset xs = mset [1, 2, 4]"
    unfolding f[symmetric] by blast
  from get_arm_indices_permutation
         [of "example_cfg\<lparr>available_arms_column_name := None\<rparr>" Map.empty _ example_state] n v u
  have b: "\<exists>xs. arm_indices_result
            (get_arm_indices (example_cfg\<lparr>available_arms_column_name := None\<rparr>) Map.empty
               example_state) = Inr xs \<and> mset xs = mset [3, 1, 2]"
    by metis
  from a b show ?thesis by blast
qed

section \<open>The frame of one observation\<close>

lemma index_of_less: "c \<in> set xs \<Longrightarrow> index_of c xs < length xs"
  by (induction xs) auto

lemma nth_index_of: "c \<in> set xs \<Longrightarrow> xs ! index_of c xs = c"
  by (induction xs) auto

lemma index_of_append_in: "c \<in> set xs \<Longrightarrow> index_of c (xs @ ys) = index_of c xs"
  by (induction xs) auto

lemma index_of_append_new: "c \<notin> set xs \<Longrightarrow> index_of c (xs @ [c]) = length xs"
  by (induction xs) auto

lemma wf_df_row: "wf_df df \<Longrightarrow> i < len_df df \<Longrightarrow> length (df_rows df ! i) = length (df_columns df)"
  by (simp add: wf_df_def len_df_def list_all_length)

lemma fill_absent_len: "len_df (fill_absent v c df) = len_df df"
  by (simp add: fill_absent_def assign_scalar_def len_df_def)

lemma fill_absent_wf: "wf_df df \<Longrightarrow> wf_df (fill_absent v c df)"
  by (simp add: fill_absent_def assign_scalar_def wf_df_def list_all_iff)

lemma fill_absent_columns: "set (df_columns (fill_absent v c df)) = insert c (set (df_columns df))"
  by (auto simp add: fill_absent_def assign_scalar_def)

lemma fill_absent_keeps:
  assumes "wf_df df" "i < len_df df" "c' \<in> set (df_columns df)"
  shows "cell (fill_absent v c df) i c' = cell df i c'"
proof (cases "c \<in> set (df_columns df)")
  case True
  then show ?thesis by (simp add: fill_absent_def)
next
  case False
  have "index_of c' (df_columns df) < length (df_rows df ! i)"
    using assms by (simp add: wf_df_row index_of_less)
  then show ?thesis using False assms
    by (simp add: fill_absent_def assign_scalar_def cell_def len_df_def index_of_append_in
        nth_append)
qed

lemma fill_absent_sets:
  assumes "wf_df df" "i < len_df df" "c \<notin> set (df_columns df)"
  shows "cell (fill_absent v c df) i c = v"
  using assms
  by (simp add: fill_absent_def assign_scalar_def cell_def len_df_def index_of_append_new
      wf_df_row nth_append)

lemma fold_fill_len: "len_df (fold (fill_absent v) cs df) = len_df df"
  by (induction cs arbitrary: df) (simp_all add: fill_absent_len)

lemma fold_fill_wf: "wf_df df \<Longrightarrow> wf_df (fold (fill_absent v) cs df)"
  by (induction cs arbitrary: df) (simp_all add: fill_absent_wf)

lemma fold_fill_columns:
  "set (df_columns (fold (fill_absent v) cs df)) = set cs \<union> set (df_columns df)"
  by (induction cs arbitrary: df) (auto simp add: fill_absent_columns)

lemma fold_fill_keeps:
  "wf_df df \<Longrightarrow> i < len_df df \<Longrightarrow> c' \<in> set (df_columns df) \<Longrightarrow>
     cell (fold (fill_absent v) cs df) i c' = cell df i c'"
proof (induction cs arbitrary: df)
  case Nil
  then show ?case by simp
next
  case (Cons c cs)
  have "cell (fold (fill_absent v) cs (fill_absent v c df)) i c' = cell (fill_absent v c df) i c'"
    using Cons.prems by (intro Cons.IH) (simp_all add: fill_absent_wf fill_absent_len fill_absent_columns)
  then show ?case using Cons.prems by (simp add: fill_absent_keeps)
qed

lemma fold_fill_sets:
  "wf_df df \<Longrightarrow> i < len_df df \<Longrightarrow> c \<in> set cs \<Longrightarrow> c \<notin> set (df_columns df) \<Longrightarrow>
     cell (fold (fill_absent v) cs df) i c = v"
proof (induction cs arbitrary: df)
  case Nil
  then show ?case by simp
next
  case (Cons a cs)
  show ?case
  proof (cases "c = a")
    case True
    have "cell (fold (fill_absent v) cs (fill_absent v a df)) i a = cell (fill_absent v a df) i a"
      using Cons.prems
      by (intro fold_fill_keeps) (simp_all add: fill_absent_wf fill_absent_len fill_absent_columns)
    then show ?thesis using True Cons.prems by (simp add: fill_absent_sets)
  next
    case False
    then have "cell (fold (fill_absent v) cs (fill_absent v a df)) i c = v"
      using Cons.prems
      by (intro Cons.IH) (simp_all add: fill_absent_wf fill_absent_len fill_absent_columns)
    then show ?thesis by simp
  qed
qed

lemma DataFrame_wf: "wf_df (DataFrame cols data)"
  by (simp add: DataFrame_def wf_df_def list_all_iff)

lemma DataFrame_len: "len_df (DataFrame cols data) = length data"
  by (simp add: DataFrame_def len_df_def)

lemma DataFrame_cell:
  "i < length data \<Longrightarrow> c \<in> set cols \<Longrightarrow> cell (DataFrame cols data) i c = value_or_nan (data ! i) c"
  by (simp add: DataFrame_def cell_def value_or_nan_def index_of_less nth_index_of)

lemma create_ob_data_frame_fill:
  "create_ob_data_frame cfg ob arm_indices =
     fold (fill_absent (PyInt 0)) (auxiliar_output_columns cfg)
       (fill_absent (PyInt 1) (output_column cfg)
          (fill_absent (PyInt 0) (hist_output_column_name cfg)
             (fill_absent (PyInt 0) (hist_view_column_name cfg)
                (DataFrame (obs_columns cfg @ [item_column cfg])
                   (map (\<lambda>arm_index. ob(item_column cfg \<mapsto> PyInt arm_index)) arm_indices)))))"
proof -
  have f: "fill_auxiliar_column = fill_absent (PyInt 0)"
    by (intro ext) (simp add: fill_auxiliar_column_def fill_absent_def)
  show ?thesis
    by (simp add: create_ob_data_frame_def fill_hist_columns_def Let_def f fill_absent_def)
qed


text \<open>
  C4. \<open>_create_ob_data_frame\<close> returns a frame with one row per arm index, in the
  order of the arm indices: row \<open>i\<close> holds the \<open>i\<close>-th arm index in the item column and
  the observation's value (\<open>NaN\<close> for a missing key) in the user column and the other
  input columns. A hist-view or hist-output column that the frame lacks is filled with
  0, an output column it lacks with 1, an auxiliary output column it lacks with 0, each
  one being absent when the code comes to it.
\<close>

theorem create_ob_data_frame_rows:
  "(let df = create_ob_data_frame cfg ob arm_indices;
        base = set (obs_columns cfg) \<union> {item_column cfg};
        hists = {hist_view_column_name cfg, hist_output_column_name cfg}
    in len_df df = length arm_indices \<and> wf_df df \<and>
       set (df_columns df) =
         base \<union> hists \<union> {output_column cfg} \<union> set (auxiliar_output_columns cfg) \<and>
       (\<forall>i < length arm_indices.
          cell df i (item_column cfg) = PyInt (arm_indices ! i) \<and>
          (\<forall>c \<in> set (obs_columns cfg).
             c \<noteq> item_column cfg \<longrightarrow> cell df i c = value_or_nan ob c) \<and>
          (hist_view_column_name cfg \<notin> base \<longrightarrow>
             cell df i (hist_view_column_name cfg) = PyInt 0) \<and>
          (hist_output_column_name cfg \<notin> base \<longrightarrow>
             cell df i (hist_output_column_name cfg) = PyInt 0) \<and>
          (output_column cfg \<notin> base \<union> hists \<longrightarrow>
             cell df i (output_column cfg) = PyInt 1) \<and>
          (\<forall>aux \<in> set (auxiliar_output_columns cfg).
             aux \<notin> base \<union> hists \<union> {output_column cfg} \<longrightarrow> cell df i aux = PyInt 0)))"
proof -
  define data where "data = map (\<lambda>arm_index. ob(item_column cfg \<mapsto> PyInt arm_index)) arm_indices"
  define df0 where "df0 = DataFrame (obs_columns cfg @ [item_column cfg]) data"
  define df1 where "df1 = fill_absent (PyInt 0) (hist_view_column_name cfg) df0"
  define df2 where "df2 = fill_absent (PyInt 0) (hist_output_column_name cfg) df1"
  define df3 where "df3 = fill_absent (PyInt 1) (output_column cfg) df2"
  define df where "df = fold (fill_absent (PyInt 0)) (auxiliar_output_columns cfg) df3"
  let ?base = "set (obs_columns cfg) \<union> {item_column cfg}"
  let ?hv = "hist_view_column_name cfg" and ?ho = "hist_output_column_name cfg"
  let ?out = "output_column cfg"
  have df: "create_ob_data_frame cfg ob arm_indices = df"
    by (simp add: create_ob_data_frame_fill df_def df3_def df2_def df1_def df0_def data_def)
  have wf: "wf_df df0" "wf_df df1" "wf_df df2" "wf_df df3" "wf_df df"
    by (simp_all add: df_def df3_def df2_def df1_def df0_def DataFrame_wf fill_absent_wf
        fold_fill_wf)
  have len: "len_df df0 = length arm_indices" "len_df df1 = length arm_indices"
    "len_df df2 = length arm_indices" "len_df df3 = length arm_indices"
    "len_df df = length arm_indices"
    by (simp_all add: df_def df3_def df2_def df1_def df0_def data_def DataFrame_len
        fill_absent_len fold_fill_len)
  have c0: "set (df_columns df0) = ?base"
    by (simp add: df0_def DataFrame_def)
  have c1: "set (df_columns df1) = insert ?hv ?base"
    by (simp add: df1_def fill_absent_columns c0)
  have c2: "set (df_columns df2) = insert ?ho (insert ?hv ?base)"
    by (simp add: df2_def fill_absent_columns c1)
  have c3: "set (df_columns df3) = insert ?out (insert ?ho (insert ?hv ?base))"
    by (simp add: df3_def fill_absent_columns c2)
  have k3: "cell df i c = cell df3 i c" if "i < length arm_indices" "c \<in> set (df_columns df3)" for i c
    unfolding df_def using that wf len by (intro fold_fill_keeps) simp_all
  have k2: "cell df3 i c = cell df2 i c" if "i < length arm_indices" "c \<in> set (df_columns df2)" for i c
    unfolding df3_def using that wf len by (intro fill_absent_keeps) simp_all
  have k1: "cell df2 i c = cell df1 i c" if "i < length arm_indices" "c \<in> set (df_columns df1)" for i c
    unfolding df2_def using that wf len by (intro fill_absent_keeps) simp_all
  have k0: "cell df1 i c = cell df0 i c" if "i < length arm_indices" "c \<in> set (df_columns df0)" for i c
    unfolding df1_def using that wf len by (intro fill_absent_keeps) simp_all
  have base: "cell df i c = value_or_nan (data ! i) c" if "i < length arm_indices" "c \<in> ?base" for i c
  proof -
    have "cell df i c = cell df0 i c"
      using that k3[of i c] k2[of i c] k1[of i c] k0[of i c] c0 c1 c2 c3 by simp
    moreover have "cell df0 i c = value_or_nan (data ! i) c"
      unfolding df0_def using that by (intro DataFrame_cell) (auto simp add: data_def)
    ultimately show ?thesis by simp
  qed
  have item: "cell df i (item_column cfg) = PyInt (arm_indices ! i)" if "i < length arm_indices" for i
    using base[OF that, of "item_column cfg"] that by (simp add: data_def value_or_nan_def)
  have obs: "cell df i c = value_or_nan ob c"
    if "i < length arm_indices" "c \<in> set (obs_columns cfg)" "c \<noteq> item_column cfg" for i c
    using base[of i c] that by (simp add: data_def value_or_nan_def)
  have hv: "cell df i ?hv = PyInt 0" if "i < length arm_indices" "?hv \<notin> ?base" for i
  proof -
    have "cell df1 i ?hv = PyInt 0"
      unfolding df1_def using that wf len c0 by (intro fill_absent_sets) simp_all
    then show ?thesis using that k3[of i ?hv] k2[of i ?hv] k1[of i ?hv] c1 c2 c3 by simp
  qed
  have ho: "cell df i ?ho = PyInt 0" if "i < length arm_indices" "?ho \<notin> ?base" for i
  proof (cases "?ho = ?hv")
    case True
    then show ?thesis using hv[of i] that by simp
  next
    case False
    have "cell df2 i ?ho = PyInt 0"
      unfolding df2_def using that False wf len c1 by (intro fill_absent_sets) simp_all
    then show ?thesis using that k3[of i ?ho] k2[of i ?ho] c2 c3 by simp
  qed
  have out: "cell df i ?out = PyInt 1"
    if "i < length arm_indices" "?out \<notin> ?base \<union> {?hv, ?ho}" for i
  proof -
    have "cell df3 i ?out = PyInt 1"
      unfolding df3_def using that wf len c2 by (intro fill_absent_sets) simp_all
    then show ?thesis using that k3[of i ?out] c3 by simp
  qed
  have aux: "cell df i a = PyInt 0"
    if "i < length arm_indices" "a \<in> set (auxiliar_output_columns cfg)"
      "a \<notin> ?base \<union> {?hv, ?ho} \<union> {?out}" for i a
    unfolding df_def using that wf len c3 by (intro fold_fill_sets) simp_all
  have cols: "set (df_columns df) =
      ?base \<union> {?hv, ?ho} \<union> {?out} \<union> set (auxiliar_output_columns cfg)"
    unfolding df_def fold_fill_columns c3 by blast
  show ?thesis
    unfolding Let_def df using len(5) wf(5) cols item obs hv ho out aux by blast
qed

theorem create_ob_data_frame_rows_witness:
  "len_df (create_ob_data_frame example_cfg
             [''user'' \<mapsto> PyInt 7, ''hour'' \<mapsto> PyInt 3, ''item'' \<mapsto> PyInt 9] [5, 2]) = 2
   \<and> map (\<lambda>c. cell (create_ob_data_frame example_cfg
                        [''user'' \<mapsto> PyInt 7, ''hour'' \<mapsto> PyInt 3, ''item'' \<mapsto> PyInt 9] [5, 2]) 1 c)
         [''user'', ''hour'', ''item'', ''hist_view'', ''hist_buy'', ''buy'', ''ps'']
       = [PyInt 7, PyInt 3, PyInt 2, PyInt 0, PyInt 0, PyInt 1, PyInt 0]"
proof -
  note t = create_ob_data_frame_rows
             [of example_cfg "[''user'' \<mapsto> PyInt 7, ''hour'' \<mapsto> PyInt 3, ''item'' \<mapsto> PyInt 9]"
                 "[5, 2]", unfolded Let_def]
  have one: "(1::nat) < length [5, 2 :: int]" by simp
  from t have len: "len_df (create_ob_data_frame example_cfg
             [''user'' \<mapsto> PyInt 7, ''hour'' \<mapsto> PyInt 3, ''item'' \<mapsto> PyInt 9] [5, 2]) = 2"
    by simp
  from t one show ?thesis
    unfolding len
    by (simp add: example_cfg_def obs_columns_def value_or_nan_def)
qed

section \<open>Contexts, arms and scores per observation\<close>















subsection \<open>Batches and the flattened outputs\<close>

lemma batches_Nil: "batches n [] = []"
  by (subst batches.simps) simp

lemma batches_step:
  "0 < n \<Longrightarrow> xs \<noteq> [] \<Longrightarrow> batches n xs = take n xs # batches n (drop n xs)"
  by (subst batches.simps) simp



lemma batches_fit: "0 < n \<Longrightarrow> xs \<noteq> [] \<Longrightarrow> length xs \<le> n \<Longrightarrow> batches n xs = [xs]"
  by (simp add: batches_step batches_Nil)







subsection \<open>The three lists\<close>















section \<open>Available arms as an indicator vector\<close>

lemma np_max_Max: "xs \<noteq> [] \<Longrightarrow> np_max xs = Inr (Max (set xs))"
  by (cases xs) (simp_all add: Max.set_eq_fold[symmetric])

lemma set_ones_spec:
  "\<forall>a\<in>set as. 0 \<le> a \<and> a < int (length v) \<Longrightarrow>
     \<exists>v'. set_ones v as = Inr v' \<and> length v' = length v \<and>
          (\<forall>i<length v. v' ! i = (if int i \<in> set as then 1 else v ! i))"
proof (induction as arbitrary: v)
  case Nil
  then show ?case by simp
next
  case (Cons a as)
  let ?w = "v[nat a := 1]"
  have a: "0 \<le> a" "a < int (length v)" using Cons.prems by simp_all
  have "\<forall>b\<in>set as. 0 \<le> b \<and> b < int (length ?w)" using Cons.prems by simp
  from Cons.IH[OF this] obtain v' where v': "set_ones ?w as = Inr v'" "length v' = length v"
    "\<forall>i<length v. v' ! i = (if int i \<in> set as then 1 else ?w ! i)"
    by auto
  have s: "set_ones v (a # as) = Inr v'" using a v'(1) by (simp add: Let_def)
  have "v' ! i = (if int i \<in> set (a # as) then 1 else v ! i)" if "i < length v" for i
  proof (cases "int i = a")
    case True
    then have "nat a = i" by simp
    then show ?thesis using v'(3) that True by auto
  next
    case False
    then have "nat a \<noteq> i" using a by auto
    then show ?thesis using v'(3) that False by auto
  qed
  then show ?case using s v'(2) by blast
qed

lemma nonzero_positions_set:
  "set (nonzero_positions v) = {int i | i. i < length v \<and> v ! i \<noteq> 0}"
  by (auto simp add: nonzero_positions_def)

lemma indicator_vector:
  assumes ne: "arms \<noteq> []" and nn: "\<forall>a\<in>set arms. 0 \<le> a"
  shows "\<exists>m items. np_max arms = Inr m \<and> np_zeros (m + 1) = Inr (replicate (nat m + 1) 0) \<and>
           set_ones (replicate (nat m + 1) 0) arms = Inr items \<and>
           m = Max (set arms) \<and> length items = nat m + 1 \<and>
           (\<forall>i<length items. items ! i = (if int i \<in> set arms then 1 else 0)) \<and>
           set (nonzero_positions items) = set arms"
proof -
  let ?m = "Max (set arms)"
  have m: "np_max arms = Inr ?m" using ne by (rule np_max_Max)
  have m0: "0 \<le> ?m" using ne nn by (cases arms) (auto simp add: Max_ge_iff)
  then have z: "np_zeros (?m + 1) = Inr (replicate (nat ?m + 1) 0)"
    by (simp add: np_zeros_def nat_add_distrib)
  have le: "a \<le> ?m" if "a \<in> set arms" for a using that by simp
  have "\<forall>a\<in>set arms. 0 \<le> a \<and> a < int (length (replicate (nat ?m + 1) (0::real)))"
    using nn m0 by (auto dest: le)
  from set_ones_spec[OF this] obtain items
    where raw: "set_ones (replicate (nat ?m + 1) 0) arms = Inr items"
      "length items = length (replicate (nat ?m + 1) (0::real))"
      "\<forall>i<length (replicate (nat ?m + 1) (0::real)).
          items ! i = (if int i \<in> set arms then 1 else replicate (nat ?m + 1) 0 ! i)"
    by blast
  have i: "set_ones (replicate (nat ?m + 1) 0) arms = Inr items" "length items = nat ?m + 1"
      "\<forall>i<nat ?m + 1. items ! i = (if int i \<in> set arms then 1 else 0)"
    using raw by (simp_all del: replicate_Suc)
  have "set (nonzero_positions items) = set arms"
  proof
    show "set (nonzero_positions items) \<subseteq> set arms"
      using i(2,3) by (auto simp add: nonzero_positions_set split: if_splits)
  next
    show "set arms \<subseteq> set (nonzero_positions items)"
    proof
      fix a assume a: "a \<in> set arms"
      have "a \<le> ?m" using a by simp
      then have "nat a \<le> nat ?m" by (rule nat_mono)
      then have "nat a < nat ?m + 1" by linarith
      moreover have "0 \<le> a" using a nn by blast
      ultimately have "0 \<le> a" "nat a < nat ?m + 1" by blast+
      then show "a \<in> set (nonzero_positions items)"
        using a i(2,3) by (auto simp add: nonzero_positions_set intro!: exI[of _ "nat a"])
    qed
  qed
  then show ?thesis using m z i by auto
qed

lemma shuffle_single: "fst (shuffle [x] g) = [x]"
  by (simp add: shuffle_def)


lemma get_arm_indices_indicator:
  assumes t: "truthy_name (available_arms_column_name cfg)"
    and o: "ob' (the (available_arms_column_name cfg)) = Some (FloatList items)"
  shows "\<exists>xs. arm_indices_result (get_arm_indices cfg ob' s) = Inr xs \<and>
              mset xs = mset (nonzero_positions items)"
  using get_arm_indices_owned[of cfg ob' "FloatList items" "nonzero_positions items" s, OF t o]
  by (simp add: arm_indices_result_def shuffle_mset)

text \<open>
  C2. For an observation whose available-arms list is non-empty (its entries being
  positions, that is, not negative), the conversion of \<open>_save_test_set_predictions\<close>
  writes a 0/1 vector of length \<open>max + 1\<close> with ones exactly at the available
  positions, and \<open>_get_arm_indices\<close> on the converted observation returns exactly the
  original set of arms. When the list is empty, the logged item is the single candidate
  arm.
\<close>

theorem available_arms_roundtrip:
  assumes t: "truthy_name (available_arms_column_name cfg)"
    and o: "ob (the (available_arms_column_name cfg)) = Some (IntList arms)"
    and nn: "\<forall>a\<in>set arms. 0 \<le> a"
  shows "(arms \<noteq> [] \<longrightarrow>
           (\<exists>ob' items xs.
              convert_available_arms cfg ob = Inr ob' \<and>
              ob' (the (available_arms_column_name cfg)) = Some (FloatList items) \<and>
              length items = nat (Max (set arms)) + 1 \<and>
              (\<forall>i<length items. items ! i = (if int i \<in> set arms then 1 else 0)) \<and>
              arm_indices_result (get_arm_indices cfg ob' s) = Inr xs \<and>
              set xs = set arms))
       \<and> (arms = [] \<longrightarrow>
           (\<forall>item. ob (item_column cfg) = Some (PyInt item) \<longrightarrow> 0 \<le> item \<longrightarrow>
              (\<exists>ob'. convert_available_arms cfg ob = Inr ob' \<and>
                     arm_indices_result (get_arm_indices cfg ob' s) = Inr [item])))"
proof (intro conjI impI allI)
  assume ne: "arms \<noteq> []"
  from indicator_vector[OF ne nn] obtain items
    where i: "np_max arms = Inr (Max (set arms))"
      "np_zeros (Max (set arms) + 1) = Inr (replicate (nat (Max (set arms)) + 1) 0)"
      "set_ones (replicate (nat (Max (set arms)) + 1) 0) arms = Inr items"
      "length items = nat (Max (set arms)) + 1"
      "\<forall>i<length items. items ! i = (if int i \<in> set arms then 1 else 0)"
      "set (nonzero_positions items) = set arms"
    by blast
  let ?ob' = "ob(the (available_arms_column_name cfg) \<mapsto> FloatList items)"
  have c: "convert_available_arms cfg ob = Inr ?ob'"
    using t o ne i(1,2,3) by (simp add: convert_available_arms_def del: replicate_Suc)
  have o': "?ob' (the (available_arms_column_name cfg)) = Some (FloatList items)" by simp
  from get_arm_indices_indicator[of cfg ?ob' items s, OF t o'] obtain xs
    where xs: "arm_indices_result (get_arm_indices cfg ?ob' s) = Inr xs"
      "mset xs = mset (nonzero_positions items)"
    by blast
  have "set xs = set arms" using xs(2) i(6) by (metis set_mset_mset)
  then show "\<exists>ob' items xs.
              convert_available_arms cfg ob = Inr ob' \<and>
              ob' (the (available_arms_column_name cfg)) = Some (FloatList items) \<and>
              length items = nat (Max (set arms)) + 1 \<and>
              (\<forall>i<length items. items ! i = (if int i \<in> set arms then 1 else 0)) \<and>
              arm_indices_result (get_arm_indices cfg ob' s) = Inr xs \<and>
              set xs = set arms"
    using c o' i(4,5) xs(1) by blast
next
  fix item
  assume e: "arms = []" and it: "ob (item_column cfg) = Some (PyInt item)" and p: "0 \<le> item"
  have z: "np_zeros (item + 1) = Inr (replicate (nat item + 1) 0)"
    using p by (simp add: np_zeros_def nat_add_distrib)
  have "\<forall>a\<in>set [item]. 0 \<le> a \<and> a < int (length (replicate (nat item + 1) (0::real)))"
    using p by simp
  from set_ones_spec[OF this] obtain items
    where raw: "set_ones (replicate (nat item + 1) 0) [item] = Inr items"
      "length items = length (replicate (nat item + 1) (0::real))"
      "\<forall>i<length (replicate (nat item + 1) (0::real)).
          items ! i = (if int i \<in> set [item] then 1 else replicate (nat item + 1) 0 ! i)"
    by blast
  have v: "length items = nat item + 1"
    "\<forall>i<nat item + 1. items ! i = (if int i = item then 1 else 0)"
    using raw(2,3) by (simp_all del: replicate_Suc)
  have nz: "nonzero_positions items = [item]"
  proof -
    have pt: "(items ! i \<noteq> 0) = (i = nat item)" if "i < nat item + 1" for i
    proof -
      have "items ! i = (if int i = item then 1 else 0)" using v(2) that by blast
      moreover have "(int i = item) = (i = nat item)" using p by auto
      ultimately show ?thesis by simp
    qed
    have "filter (\<lambda>i. items ! i \<noteq> 0) [0..<nat item + 1] = filter (\<lambda>i. i = nat item) [0..<nat item + 1]"
    proof (intro filter_cong refl)
      fix x assume "x \<in> set [0..<nat item + 1]"
      then have "x < nat item + 1" by auto
      then show "(items ! x \<noteq> 0) = (x = nat item)" by (rule pt)
    qed
    also have "\<dots> = [nat item]" by simp
    finally show ?thesis using p by (simp add: nonzero_positions_def v(1))
  qed
  let ?ob' = "ob(the (available_arms_column_name cfg) \<mapsto> FloatList items)"
  have c: "convert_available_arms cfg ob = Inr ?ob'"
    using t o e it z raw(1) by (simp add: convert_available_arms_def del: replicate_Suc)
  have o': "?ob' (the (available_arms_column_name cfg)) = Some (FloatList items)" by simp
  have "arm_indices_result (get_arm_indices cfg ?ob' s) = Inr [item]"
    using get_arm_indices_owned[of cfg ?ob' "FloatList items" "[item]" s, OF t o'] nz
    by (simp add: arm_indices_result_def shuffle_single)
  then show "\<exists>ob'. convert_available_arms cfg ob = Inr ob' \<and>
                     arm_indices_result (get_arm_indices cfg ob' s) = Inr [item]"
    using c by blast
qed

theorem available_arms_roundtrip_witness:
  "(\<exists>ob' xs.
      convert_available_arms example_cfg [''item'' \<mapsto> PyInt 2, ''arms'' \<mapsto> IntList [3, 1, 3]]
        = Inr ob' \<and>
      arm_indices_result (get_arm_indices example_cfg ob' example_state) = Inr xs \<and>
      set xs = {1, 3})
   \<and> (\<exists>ob'.
      convert_available_arms example_cfg [''item'' \<mapsto> PyInt 2, ''arms'' \<mapsto> IntList []]
        = Inr ob' \<and>
      arm_indices_result (get_arm_indices example_cfg ob' example_state) = Inr [2])"
proof -
  have t: "truthy_name (available_arms_column_name example_cfg)"
    by (simp add: example_cfg_def)
  have o1: "[''item'' \<mapsto> PyInt 2, ''arms'' \<mapsto> IntList [3, 1, 3]]
              (the (available_arms_column_name example_cfg)) = Some (IntList [3, 1, 3])"
    and o2: "[''item'' \<mapsto> PyInt 2, ''arms'' \<mapsto> IntList []]
              (the (available_arms_column_name example_cfg)) = Some (IntList [])"
    and it: "[''item'' \<mapsto> PyInt 2, ''arms'' \<mapsto> IntList []] (item_column example_cfg)
              = Some (PyInt 2)"
    by (simp_all add: example_cfg_def)
  have n1: "\<forall>a\<in>set [3, 1, 3 :: int]. 0 \<le> a" and n2: "\<forall>a\<in>set ([] :: int list). 0 \<le> a"
    by simp_all
  from available_arms_roundtrip
         [of example_cfg "[''item'' \<mapsto> PyInt 2, ''arms'' \<mapsto> IntList [3, 1, 3]]" "[3, 1, 3]"
             example_state, OF t o1 n1]
  have a: "\<exists>ob' xs.
      convert_available_arms example_cfg [''item'' \<mapsto> PyInt 2, ''arms'' \<mapsto> IntList [3, 1, 3]]
        = Inr ob' \<and>
      arm_indices_result (get_arm_indices example_cfg ob' example_state) = Inr xs \<and>
      set xs = {1, 3}"
    by auto
  from available_arms_roundtrip
         [of example_cfg "[''item'' \<mapsto> PyInt 2, ''arms'' \<mapsto> IntList []]" "[]"
             example_state, OF t o2 n2] it
  have b: "\<exists>ob'.
      convert_available_arms example_cfg [''item'' \<mapsto> PyInt 2, ''arms'' \<mapsto> IntList []]
        = Inr ob' \<and>
      arm_indices_result (get_arm_indices example_cfg ob' example_state) = Inr [2]"
    by auto
  from a b show ?thesis by blast
qed

section \<open>The columns written with the test set predictions\<close>

lemma index_of_eq: "a \<in> set xs \<Longrightarrow> index_of a xs = index_of b xs \<Longrightarrow> a = b"
  by (induction xs) (auto split: if_splits)

lemma assign_list_Inr:
  assumes "assign_list df c vs = Inr df'"
  shows "length vs = len_df df" and "len_df df' = len_df df"
    and "df_columns df' = (if c \<in> set (df_columns df) then df_columns df else df_columns df @ [c])"
  using assms by (auto simp add: assign_list_def len_df_def split: if_splits)

lemma assign_list_wf:
  assumes "assign_list df c vs = Inr df'" "wf_df df"
  shows "wf_df df'"
  using assms
  by (fastforce simp add: assign_list_def wf_df_def list_all_iff split: if_splits
      dest: set_zip_leftD)


lemma assign_list_other_cell:
  assumes a: "assign_list df c vs = Inr df'" and wf: "wf_df df" and i: "i < len_df df"
    and c': "c' \<in> set (df_columns df)" "c' \<noteq> c"
  shows "cell df' i c' = cell df i c'"
proof -
  have l: "length vs = length (df_rows df)" using a by (auto simp add: assign_list_def split: if_splits)
  have r: "length (df_rows df ! i) = length (df_columns df)" using wf i by (rule wf_df_row)
  show ?thesis
  proof (cases "c \<in> set (df_columns df)")
    case True
    have "index_of c (df_columns df) \<noteq> index_of c' (df_columns df)"
      using index_of_eq[OF True, of c'] c' by auto
    then show ?thesis using True a l i r
      by (auto simp add: assign_list_def cell_def len_df_def split: if_splits)
  next
    case False
    then show ?thesis using a l i r c'
      by (auto simp add: assign_list_def cell_def len_df_def index_of_append_in nth_append
          index_of_less split: if_splits)
  qed
qed

subsection \<open>The sort\<close>































lemma save_test_set_predictions_Inr:
  assumes "save_test_set_predictions featurize cfg emb agent test_df s = (Inr csv, s')"
  shows "\<exists>obs ctxs arms scores df1 df2.
           prepare_test_obs cfg emb (to_dict_records test_df) = Inr obs \<and>
           prepare_for_agent featurize cfg agent obs s = (Inr (ctxs, arms, scores), s') \<and>
           assign_list test_df ''sorted_actions''
             (map IntList (map fst (map (\<lambda>(arm_contexts, arm_indices, arm_scores).
                                    agent_rank agent arm_indices arm_contexts arm_scores)
                                 (zip ctxs (zip arms scores))))) = Inr df1 \<and>
           assign_list df1 ''prob_actions''
             (map PyFloats (map snd (map (\<lambda>(arm_contexts, arm_indices, arm_scores).
                                    agent_rank agent arm_indices arm_contexts arm_scores)
                                 (zip ctxs (zip arms scores))))) = Inr df2 \<and>
           assign_list df2 ''action_scores'' (map PyFloats (map sorted_action_scores scores))
             = Inr csv"
  using assms
  by (auto simp add: save_test_set_predictions_def Let_def
      simp del: map_map split: sum.splits prod.splits)







lemma example_save:
  "fst (save_test_set_predictions example_featurize example_cfg None example_agent
          example_test_frame example_state) = Inr example_csv"
  by code_simp

lemma example_test_frame_wf: "wf_df example_test_frame"
  by (simp add: wf_df_def example_test_frame_def)


text \<open>
  A test frame that already has an \<open>action_scores\<close> column: the call overwrites that
  column and adds two columns, not three.
\<close>

theorem save_test_set_predictions_overwrites:
  "fst (save_test_set_predictions example_featurize example_cfg None example_agent
          clash_test_frame example_state) = Inr clash_csv \<and>
   ''action_scores'' \<in> set (df_columns clash_test_frame) \<and>
   cell clash_test_frame 0 ''action_scores'' = PyStr ''logged'' \<and>
   cell clash_csv 0 ''action_scores'' = PyFloats [PyFloat (2 / 10), PyFloat (1 / 10)] \<and>
   length (df_columns clash_csv) = length (df_columns clash_test_frame) + 2"
  by code_simp

text \<open>
  C7 (amended). \<open>_save_test_set_predictions\<close> sets exactly the three columns
  \<open>sorted_actions\<close>, \<open>prob_actions\<close> and \<open>action_scores\<close>: those the test frame lacks
  are appended in this order after its columns, those it has are overwritten in place.
  Every other column of the test frame, the number of rows and the order of the rows
  are unchanged in the file it writes.
\<close>

theorem save_test_set_predictions_frame:
  assumes sv: "save_test_set_predictions featurize cfg emb agent test_df s = (Inr csv, s')"
    and wf: "wf_df test_df"
  shows "len_df csv = len_df test_df \<and>
     df_columns csv =
       df_columns test_df @
       filter (\<lambda>c. c \<notin> set (df_columns test_df))
         [''sorted_actions'', ''prob_actions'', ''action_scores''] \<and>
     (\<forall>i<len_df test_df. \<forall>c\<in>set (df_columns test_df).
        c \<notin> {''sorted_actions'', ''prob_actions'', ''action_scores''} \<longrightarrow>
        cell csv i c = cell test_df i c)"
proof -
  from save_test_set_predictions_Inr[OF sv] obtain v1 v2 v3 df1 df2
    where d1: "assign_list test_df ''sorted_actions'' v1 = Inr df1"
      and d2: "assign_list df1 ''prob_actions'' v2 = Inr df2"
      and d3: "assign_list df2 ''action_scores'' v3 = Inr csv"
    by blast
  have l1: "len_df df1 = len_df test_df" and l2: "len_df df2 = len_df test_df"
    and l3: "len_df csv = len_df test_df"
    using assign_list_Inr(2)[OF d1] assign_list_Inr(2)[OF d2] assign_list_Inr(2)[OF d3] by simp_all
  have w1: "wf_df df1" using assign_list_wf[OF d1 wf] .
  have w2: "wf_df df2" using assign_list_wf[OF d2 w1] .
  note c1 = assign_list_Inr(3)[OF d1] and c2 = assign_list_Inr(3)[OF d2]
    and c3 = assign_list_Inr(3)[OF d3]
  have cols: "df_columns csv =
       df_columns test_df @
       filter (\<lambda>c. c \<notin> set (df_columns test_df))
         [''sorted_actions'', ''prob_actions'', ''action_scores'']"
    unfolding c3 c2 c1 by auto
  have keep: "cell csv i c = cell test_df i c"
    if "i < len_df test_df" "c \<in> set (df_columns test_df)"
      "c \<notin> {''sorted_actions'', ''prob_actions'', ''action_scores''}" for i c
  proof -
    have m1: "c \<in> set (df_columns df1)" using that(2) c1 by auto
    then have m2: "c \<in> set (df_columns df2)" using c2 by auto
    have "cell df1 i c = cell test_df i c"
      using assign_list_other_cell[OF d1 wf that(1,2)] that(3) by simp
    moreover have "cell df2 i c = cell df1 i c"
      using assign_list_other_cell[OF d2 w1 _ m1] that(1,3) l1 by simp
    moreover have "cell csv i c = cell df2 i c"
      using assign_list_other_cell[OF d3 w2 _ m2] that(1,3) l2 by simp
    ultimately show ?thesis by simp
  qed
  show ?thesis using l3 cols keep by blast
qed


theorem save_test_set_predictions_frame_witness:
  "fst (save_test_set_predictions example_featurize example_cfg None example_agent
          example_test_frame example_state) = Inr example_csv \<and>
   wf_df example_test_frame \<and>
   len_df example_csv = len_df example_test_frame \<and>
   df_columns example_csv =
     df_columns example_test_frame @ [''sorted_actions'', ''prob_actions'', ''action_scores''] \<and>
   cell example_csv 1 ''arms'' = cell example_test_frame 1 ''arms''"
proof -
  have sv: "save_test_set_predictions example_featurize example_cfg None example_agent
              example_test_frame example_state
            = (Inr example_csv,
               snd (save_test_set_predictions example_featurize example_cfg None example_agent
                      example_test_frame example_state))"
    using example_save by (metis prod.collapse)
  have i: "1 < len_df example_test_frame"
    and c: "''arms'' \<in> set (df_columns example_test_frame)"
    and n: "''arms'' \<notin> {''sorted_actions'', ''prob_actions'', ''action_scores''}"
    and f: "filter (\<lambda>c. c \<notin> set (df_columns example_test_frame))
              [''sorted_actions'', ''prob_actions'', ''action_scores'']
            = [''sorted_actions'', ''prob_actions'', ''action_scores'']"
    by (simp_all add: len_df_def example_test_frame_def)
  note t = save_test_set_predictions_frame[OF sv example_test_frame_wf]
  note t1 = t[THEN conjunct1] and t2 = t[THEN conjunct2, THEN conjunct1]
    and t3 = t[THEN conjunct2, THEN conjunct2, rule_format, OF i c n]
  show ?thesis
    using example_save example_test_frame_wf t1 t2[unfolded f] t3 by (intro conjI)
qed

section \<open>The output directory after a run\<close>

text \<open>
  A training method that is interrupted after it has written a file: \<open>run()\<close> ends
  with the exception and the output directory is still there, partly filled.
\<close>

theorem run_interrupted_leaves_output:
  "fst (run train_interrupted ''cpu'' 0 fresh_run_state) = Inl KeyboardInterrupt \<and>
   output_dir (snd (run train_interrupted ''cpu'' 0 fresh_run_state))
     = Some [''params.json'', ''summary.txt'']"
  by (simp add: run_def train_interrupted_def fresh_run_state_def makedirs_def save_params_def
      write_summary_def is_Exception_def release_device_def)

text \<open>
  C6 (amended). If \<open>train()\<close> raises an exception derived from \<open>Exception\<close> during
  \<open>run()\<close>, the task's output directory is removed before the exception is raised again
  and no output is left. An exception that is not derived from \<open>Exception\<close>
  (\<open>KeyboardInterrupt\<close>, \<open>SystemExit\<close>) leaves \<open>run()\<close> with the directory as
  \<open>train()\<close> left it, and so does a normal return.
\<close>

theorem run_output_after_train:
  assumes "train (save_params (makedirs s)) = (r, s1)"
  shows "(\<forall>e. r = Inl e \<longrightarrow> is_Exception e \<longrightarrow>
            (\<exists>e'. fst (run train device device_id s) = Inl e' \<and>
                  (output_dir s1 \<noteq> None \<longrightarrow> e' = e)) \<and>
            output_dir (snd (run train device device_id s)) = None) \<and>
         (\<forall>e. r = Inl e \<longrightarrow> \<not> is_Exception e \<longrightarrow>
            fst (run train device device_id s) = Inl e \<and>
            output_dir (snd (run train device device_id s)) = output_dir s1) \<and>
         (\<forall>u. r = Inr u \<longrightarrow>
            fst (run train device device_id s) = Inr u \<and>
            output_dir (snd (run train device device_id s)) = output_dir s1)"
  using assms
  by (auto simp add: run_def rmtree_def release_device_def split: option.splits)

theorem run_output_after_train_witness:
  "train_failing (save_params (makedirs fresh_run_state))
     = (Inl RuntimeError, \<lparr>output_dir = Some [''params.json'', ''summary.txt''],
                          available_devices = []\<rparr>) \<and>
   is_Exception RuntimeError \<and>
   fst (run train_failing ''cpu'' 0 fresh_run_state) = Inl RuntimeError \<and>
   output_dir (snd (run train_failing ''cpu'' 0 fresh_run_state)) = None"
proof -
  have t: "train_failing (save_params (makedirs fresh_run_state))
     = (Inl RuntimeError, \<lparr>output_dir = Some [''params.json'', ''summary.txt''],
                          available_devices = []\<rparr>)"
    and x: "is_Exception RuntimeError"
    by (simp_all add: train_failing_def fresh_run_state_def makedirs_def save_params_def
        write_summary_def is_Exception_def)
  from run_output_after_train
         [of train_failing fresh_run_state "Inl RuntimeError" _ "''cpu''" 0, OF t] t x
  show ?thesis by auto
qed

section \<open>The constructor of the contextual bandit\<close>

lemma init_weights_append:
  "init_weights w (xs @ ys) =
     (case init_weights w xs of Some e \<Rightarrow> Some e | None \<Rightarrow> init_weights w ys)"
  by (induction xs) (simp_all split: option.splits)

lemma LogisticRegression_Inr:
  assumes "LogisticRegression d w = Inr lr"
  shows "init_weights w (map linear_weight (lr_layers lr)) = None"
    and "d = IntDim (fst (lr_linear lr))" and "snd (lr_linear lr) = 1"
  using assms
  by (auto simp add: LogisticRegression_def nn_Linear_def Let_def
      split: py_dim.splits option.splits)












lemma ContextualBandit_Inr:
  assumes "ContextualBandit p = Inr cb"
  shows "init_weights (weight_init p) (embedding_weights p) = None"
    and "init_weights (weight_init p) (conv_weights p) = None"
    and "\<exists>c. context_input_dim p = Inr c \<and>
           ((predictor p = ''logistic_regression'' \<and>
             (\<exists>lr. LogisticRegression
                      (add_dim (add_dim (item_input_dim p) (IntDim c))
                         (IntDim (user_input_dim p)))
                      (weight_init p) = Inr lr \<and> cb = make_bandit p (LR lr))) \<or>
            (predictor p = ''factorization_machine'' \<and>
             (\<exists>fm. DeepFactorizationMachine (n_factors p) (IntDim c) (item_input_dim p)
                      (IntDim (user_input_dim p)) (fm_order p) (weight_init p) (fm_deep p)
                      (fm_hidden_layers p) = Inr fm \<and> cb = make_bandit p (FM fm))))"
proof -
  show i: "init_weights (weight_init p) (embedding_weights p) = None"
    using assms by (cases "init_weights (weight_init p) (embedding_weights p)")
                   (simp_all add: ContextualBandit_def)
  obtain c where c: "context_input_dim p = Inr c"
    using assms i by (cases "context_input_dim p") (simp_all add: ContextualBandit_def)
  show "init_weights (weight_init p) (conv_weights p) = None"
    using assms i c
    by (auto simp add: ContextualBandit_def init_weights_append
        split: if_splits sum.splits option.splits)
  show "\<exists>c. context_input_dim p = Inr c \<and>
           ((predictor p = ''logistic_regression'' \<and>
             (\<exists>lr. LogisticRegression
                      (add_dim (add_dim (item_input_dim p) (IntDim c))
                         (IntDim (user_input_dim p)))
                      (weight_init p) = Inr lr \<and> cb = make_bandit p (LR lr))) \<or>
            (predictor p = ''factorization_machine'' \<and>
             (\<exists>fm. DeepFactorizationMachine (n_factors p) (IntDim c) (item_input_dim p)
                      (IntDim (user_input_dim p)) (fm_order p) (weight_init p) (fm_deep p)
                      (fm_hidden_layers p) = Inr fm \<and> cb = make_bandit p (FM fm))))"
    using assms i c
    by (auto simp add: ContextualBandit_def split: if_splits sum.splits option.splits)
qed



lemma constructed: "(case x of Inl e \<Rightarrow> False | Inr v \<Rightarrow> True) \<Longrightarrow> \<exists>v. x = Inr v"
  by (cases x) simp_all


section \<open>User embeddings without normalisation\<close>

lemma ContextualBandit_fields:
  assumes "ContextualBandit p = Inr cb"
  shows "self_user_embeddings cb = (if user_embeddings p then Some (n_users p, n_factors p) else None)"
    and "self_use_normalize cb = use_normalize p"
  using ContextualBandit_Inr(3)[OF assms] by (auto simp add: make_bandit_def)

lemma compute_user_embeddings_unbound:
  assumes "\<not> self_use_normalize cb"
  shows "\<exists>e. compute_user_embeddings cb user_ids = Inl e"
  using assms by (simp add: compute_user_embeddings_def Let_def split: option.splits sum.splits)

lemma forward_fails:
  assumes "self_user_embeddings cb \<noteq> None" "\<not> self_use_normalize cb"
  shows "\<exists>e. forward cb user_ids c = Inl e"
proof -
  from compute_user_embeddings_unbound[OF assms(2), of user_ids] obtain e
    where "compute_user_embeddings cb user_ids = Inl e" by blast
  then show ?thesis using assms(1)
    by (simp add: forward_def split: sum.splits)
qed

text \<open>
  C9. For a \<open>ContextualBandit\<close> constructed with \<open>user_embeddings\<close> on and
  \<open>use_normalize\<close> off, \<open>compute_user_embeddings\<close> raises on every input (the unbound
  local \<open>out\<close> when the indices are in range, the failed lookup otherwise), and so does
  \<open>forward\<close>. A call of \<open>compute_user_embeddings\<close> that returns was made with
  \<open>use_normalize\<close> on; with it on, and user indices in range, the call returns the
  embedded batch.
\<close>

theorem compute_user_embeddings_needs_normalize:
  assumes "ContextualBandit p = Inr cb" and "user_embeddings p"
  shows "(\<not> use_normalize p \<longrightarrow>
            (\<forall>user_ids. compute_user_embeddings cb user_ids =
               Inl (if list_all (\<lambda>i. 0 \<le> i \<and> i < int (n_users p)) user_ids
                    then UnboundLocalError else IndexError)) \<and>
            (\<forall>user_ids c. \<exists>e. forward cb user_ids c = Inl e)) \<and>
         (\<forall>user_ids v. compute_user_embeddings cb user_ids = Inr v \<longrightarrow> use_normalize p) \<and>
         (use_normalize p \<longrightarrow>
            (\<forall>user_ids. list_all (\<lambda>i. 0 \<le> i \<and> i < int (n_users p)) user_ids \<longrightarrow>
               compute_user_embeddings cb user_ids = Inr (Some (length user_ids, n_factors p))))"
proof -
  note f = ContextualBandit_fields[OF assms(1)]
  have u: "self_user_embeddings cb = Some (n_users p, n_factors p)" using f(1) assms(2) by simp
  have a: "compute_user_embeddings cb user_ids =
               Inl (if list_all (\<lambda>i. 0 \<le> i \<and> i < int (n_users p)) user_ids
                    then UnboundLocalError else IndexError)" if "\<not> use_normalize p" for user_ids
    using that u f(2) by (simp add: compute_user_embeddings_def embedding_apply_def Let_def)
  have b: "\<exists>e. forward cb user_ids c = Inl e" if "\<not> use_normalize p" for user_ids c
    using forward_fails[of cb user_ids c] that u f(2) by simp
  have c: "use_normalize p" if "compute_user_embeddings cb user_ids = Inr v" for user_ids v
    using compute_user_embeddings_unbound[of cb user_ids] that f(2) by auto
  have d: "compute_user_embeddings cb user_ids = Inr (Some (length user_ids, n_factors p))"
    if "use_normalize p" "list_all (\<lambda>i. 0 \<le> i \<and> i < int (n_users p)) user_ids" for user_ids
    using that u f(2)
    by (simp add: compute_user_embeddings_def embedding_apply_def Let_def normalize_def)
  show ?thesis using a b c d by blast
qed

theorem compute_user_embeddings_needs_normalize_witness:
  "(\<exists>cb. ContextualBandit (example_params\<lparr>user_embeddings := True\<rparr>) = Inr cb \<and>
         compute_user_embeddings cb [0, 7] = Inl UnboundLocalError \<and>
         (\<exists>e. forward cb [0, 7] example_content = Inl e)) \<and>
   (\<exists>cb. ContextualBandit (example_params\<lparr>user_embeddings := True, use_normalize := True\<rparr>)
           = Inr cb \<and>
         compute_user_embeddings cb [0, 7] = Inr (Some (2, 4)))"
proof -
  let ?p = "example_params\<lparr>user_embeddings := True\<rparr>"
  let ?q = "example_params\<lparr>user_embeddings := True, use_normalize := True\<rparr>"
  have "\<exists>cb. ContextualBandit ?p = Inr cb" by (rule constructed) code_simp
  then obtain cb where cb: "ContextualBandit ?p = Inr cb" by blast
  have "\<exists>cq. ContextualBandit ?q = Inr cq" by (rule constructed) code_simp
  then obtain cq where cq: "ContextualBandit ?q = Inr cq" by blast
  have up: "user_embeddings ?p" and uq: "user_embeddings ?q" by simp_all
  have np: "\<not> use_normalize ?p" and nq: "use_normalize ?q"
    by (simp_all add: example_params_def)
  have r: "list_all (\<lambda>i. 0 \<le> i \<and> i < int (n_users ?p)) [0, 7]"
    "list_all (\<lambda>i. 0 \<le> i \<and> i < int (n_users ?q)) [0, 7]"
    by (simp_all add: example_params_def)
  note t = compute_user_embeddings_needs_normalize[OF cb up]
  note t' = compute_user_embeddings_needs_normalize[OF cq uq]
  have a: "compute_user_embeddings cb [0, 7] = Inl UnboundLocalError"
    using t[THEN conjunct1, rule_format, OF np, THEN conjunct1, rule_format, of "[0, 7]"] r(1)
    by simp
  have b: "\<exists>e. forward cb [0, 7] example_content = Inl e"
    using t[THEN conjunct1, rule_format, OF np, THEN conjunct2, rule_format] .
  have c: "compute_user_embeddings cq [0, 7] = Inr (Some (2, 4))"
    using t'[THEN conjunct2, THEN conjunct2, rule_format, OF nq r(2)]
    by (simp add: example_params_def)
  show ?thesis using cb cq a b c by blast
qed

section \<open>Representations that are None\<close>

lemma first_order_fails:
  assumes "(item \<noteq> None \<and> (user = None \<or> context = None)) \<or> (user \<noteq> None \<and> context = None)"
  shows "\<exists>e. first_order [item, user, context] None = Inl e"
  using assms
  by (auto simp add: cat_onto_def torch_cat_def split: sum.splits list.splits prod.splits)

lemma dfm_predict_fails:
  assumes "(item \<noteq> None \<and> (user = None \<or> context = None)) \<or> (user \<noteq> None \<and> context = None)
           \<or> (item = None \<and> user = None \<and> context = None)"
  shows "\<exists>e. dfm_predict fm item user context = Inl e"
proof (cases "item = None \<and> user = None \<and> context = None")
  case True
  then have "first_order [item, user, context] None = Inr None"
    by (simp add: cat_onto_def)
  then show ?thesis
    by (simp add: dfm_predict_def linear_apply_def split: sum.splits)
next
  case False
  with assms first_order_fails[of item user "context"] obtain e
    where "first_order [item, user, context] None = Inl e" by blast
  then show ?thesis by (simp add: dfm_predict_def split: sum.splits)
qed

lemma dfm_predict_returns:
  assumes "dfm_predict fm item user context = Inr r"
  shows "context \<noteq> None \<and> (item \<noteq> None \<longrightarrow> user \<noteq> None)"
proof (rule ccontr)
  assume "\<not> (context \<noteq> None \<and> (item \<noteq> None \<longrightarrow> user \<noteq> None))"
  then have "(item \<noteq> None \<and> (user = None \<or> context = None)) \<or> (user \<noteq> None \<and> context = None)
           \<or> (item = None \<and> user = None \<and> context = None)"
    by auto
  from dfm_predict_fails[OF this, of fm] assms show False by simp
qed

lemma lr_predict_ok:
  assumes "given_representations item user context \<noteq> []"
    and "list_all (\<lambda>t. fst t = b) (given_representations item user context)"
    and "LogisticRegression
           (IntDim (sum_list (map snd (given_representations item user context)))) w = Inr lr"
  shows "lr_predict lr item user context = Inr [b, 1]"
proof -
  have l: "lr_linear lr = (sum_list (map snd (given_representations item user context)), 1)"
    using LogisticRegression_Inr(2,3)[OF assms(3)] by (cases "lr_linear lr") simp
  show ?thesis
    using assms(1,2) l
    by (cases item; cases user; cases "context")
       (auto simp add: given_representations_def lr_predict_def cat_onto_def torch_cat_def
          linear_apply_def)
qed

text \<open>
  A bandit with a factorization machine, user embeddings and numerical context but no
  item representation: the item representation is \<open>None\<close>, the other two are given,
  and \<open>predict\<close> and \<open>forward\<close> return.
\<close>

theorem dfm_predict_without_item:
  "(case ContextualBandit example_fm_params of
      Inl e \<Rightarrow> False
    | Inr cb \<Rightarrow>
        compute_item_embeddings cb example_content = Inr None \<and>
        compute_user_embeddings cb [0, 7] = Inr (Some (2, 4)) \<and>
        compute_context_embeddings cb example_content = Inr (Some (2, 3)) \<and>
        predict (self_predictor cb) None (Some (2, 4)) (Some (2, 3)) = Inr [2] \<and>
        forward cb [0, 7] example_content = Inr [2])"
  by code_simp

text \<open>
  C10 (amended). \<open>DeepFactorizationMachine.predict\<close> is defined only when the context
  representation is given and the user representation is given whenever the item
  representation is: its first-order term starts from the first representation that is
  not \<open>None\<close> in the order item, user, context and concatenates every later one
  unconditionally, so the call fails whenever a \<open>None\<close> representation follows one that
  is given (item given and user or context \<open>None\<close>; user given and context \<open>None\<close>), and
  when all three are \<open>None\<close>. It does not fail whenever one of them is \<open>None\<close>: a machine
  built for a context of width 3 and a user of width 4 returns with the item
  representation \<open>None\<close>. Its latent-vector stage skips \<open>None\<close> inputs, and
  \<open>LogisticRegression.predict\<close> returns for every non-empty subset of given
  representations.
\<close>

theorem predict_none_representations:
  "(\<forall>r. dfm_predict fm item user context = Inr r \<longrightarrow>
        context \<noteq> None \<and> (item \<noteq> None \<longrightarrow> user \<noteq> None))
   \<and> (((item \<noteq> None \<and> (user = None \<or> context = None)) \<or> (user \<noteq> None \<and> context = None)
        \<or> (item = None \<and> user = None \<and> context = None)) \<longrightarrow>
        (\<exists>e. dfm_predict fm item user context = Inl e))
   \<and> (case DeepFactorizationMachine 4 (IntDim 3) (IntDim 0) (IntDim 4) 1 lecun_normal_init
              False [64, 32] of
         Inl e \<Rightarrow> False
       | Inr fm0 \<Rightarrow> dfm_predict fm0 None (Some (2, 4)) (Some (2, 3)) = Inr [2])
   \<and> (\<forall>linear_module latent_vectors.
         latent_step linear_module None latent_vectors = Inr latent_vectors)
   \<and> (\<forall>b w lr. given_representations item user context \<noteq> [] \<longrightarrow>
         list_all (\<lambda>t. fst t = b) (given_representations item user context) \<longrightarrow>
         LogisticRegression
           (IntDim (sum_list (map snd (given_representations item user context)))) w = Inr lr \<longrightarrow>
         lr_predict lr item user context = Inr [b, 1])"
proof (intro conjI allI impI)
  fix r assume "dfm_predict fm item user context = Inr r"
  from dfm_predict_returns[OF this] show "context \<noteq> None" by simp
next
  fix r assume r: "dfm_predict fm item user context = Inr r" and i: "item \<noteq> None"
  from dfm_predict_returns[OF r] i show "user \<noteq> None" by simp
next
  assume "(item \<noteq> None \<and> (user = None \<or> context = None)) \<or> (user \<noteq> None \<and> context = None)
      \<or> (item = None \<and> user = None \<and> context = None)"
  then show "\<exists>e. dfm_predict fm item user context = Inl e" by (rule dfm_predict_fails)
next
  show "case DeepFactorizationMachine 4 (IntDim 3) (IntDim 0) (IntDim 4) 1 lecun_normal_init
              False [64, 32] of
         Inl e \<Rightarrow> False
       | Inr fm0 \<Rightarrow> dfm_predict fm0 None (Some (2, 4)) (Some (2, 3)) = Inr [2]"
    by code_simp
next
  fix linear_module latent_vectors
  show "latent_step linear_module None latent_vectors = Inr latent_vectors"
    by (simp add: latent_step_def)
next
  fix b w lr
  assume "given_representations item user context \<noteq> []"
    "list_all (\<lambda>t. fst t = b) (given_representations item user context)"
    "LogisticRegression
       (IntDim (sum_list (map snd (given_representations item user context)))) w = Inr lr"
  then show "lr_predict lr item user context = Inr [b, 1]" by (rule lr_predict_ok)
qed

theorem predict_none_representations_witness:
  "(\<exists>fm. DeepFactorizationMachine 4 (IntDim 3) (IntDim 0) (IntDim 4) 1 lecun_normal_init
            False [64, 32] = Inr fm \<and>
         (\<exists>e. dfm_predict fm (Some (2, 5)) None (Some (2, 3)) = Inl e) \<and>
         dfm_predict fm None (Some (2, 4)) (Some (2, 3)) = Inr [2]) \<and>
   (\<exists>lr. LogisticRegression (IntDim 7) lecun_normal_init = Inr lr \<and>
         lr_predict lr None (Some (2, 4)) (Some (2, 3)) = Inr [2, 1])"
proof -
  have "\<exists>fm. DeepFactorizationMachine 4 (IntDim 3) (IntDim 0) (IntDim 4) 1 lecun_normal_init
               False [64, 32] = Inr fm"
    by (rule constructed) code_simp
  then obtain fm where fm: "DeepFactorizationMachine 4 (IntDim 3) (IntDim 0) (IntDim 4) 1
                               lecun_normal_init False [64, 32] = Inr fm"
    by blast
  have "\<exists>lr. LogisticRegression (IntDim 7) lecun_normal_init = Inr lr"
    by (rule constructed) code_simp
  then obtain lr where lr: "LogisticRegression (IntDim 7) lecun_normal_init = Inr lr" by blast
  have a: "\<exists>e. dfm_predict fm (Some (2, 5)) None (Some (2, 3)) = Inl e"
    using predict_none_representations
            [of fm "Some (2, 5)" None "Some (2, 3)", THEN conjunct2, THEN conjunct1]
    by simp
  have b: "dfm_predict fm None (Some (2, 4)) (Some (2, 3)) = Inr [2]"
    using predict_none_representations
            [of fm None "Some (2, 4)" "Some (2, 3)", THEN conjunct2, THEN conjunct2,
             THEN conjunct1] fm
    by simp
  have given: "Some (2, 3) \<noteq> (None :: tensor option) \<and>
               ((None :: tensor option) \<noteq> None \<longrightarrow> Some (2, 4) \<noteq> (None :: tensor option))"
    using predict_none_representations
            [of fm None "Some (2, 4)" "Some (2, 3)", THEN conjunct1, rule_format, OF b] .
  have g: "given_representations None (Some (2, 4)) (Some (2, 3)) = [(2, 3), (2, 4)]"
    by (simp add: given_representations_def)
  have c: "lr_predict lr None (Some (2, 4)) (Some (2, 3)) = Inr [2, 1]"
    using predict_none_representations
            [of fm None "Some (2, 4)" "Some (2, 3)", THEN conjunct2, THEN conjunct2,
             THEN conjunct2, THEN conjunct2, rule_format, of 2 lecun_normal_init lr] lr
    by (simp add: g)
  show ?thesis using fm lr a b c by blast
qed

end
